theory Spec2Isabelle
  imports Complex_Main "HOL-Library.Multiset" "HOL-Library.Log_Nat"
begin

section \<open>JavaScript values read from a request body\<close>

text \<open>
  The handlers of the booking service read the parsed request body, a JavaScript object
  produced by the JSON (or URL-encoded) body parser. A JS string is modelled as a
  \<open>string\<close> whose characters are code units below 256. A JS number is a double: \<open>NaN\<close>,
  an infinity, or a finite double \<open>Fin q\<close>, given by its exact value, a rational. The two
  zeros are both \<open>Fin 0\<close>: the handlers cannot tell them apart (both are falsy, print as
  \<open>0\<close> and give the same date). The numbers of a body are doubles already; a number that
  the handlers compute is rounded to a double by \<open>round_double\<close> below.
\<close>

datatype jsnum = NaN | PosInf | NegInf | Fin rat

datatype jsval =
    JUndefined
  | JNull
  | JBool bool
  | JNum jsnum
  | JStr string
  | JArr "jsval list"
  | JObj "(string \<times> jsval) list"

type_synonym body = "string \<Rightarrow> jsval option"

text \<open>Destructuring \<open>const { k } = req.body\<close>: an absent key reads as \<open>undefined\<close>.\<close>

definition field :: "body \<Rightarrow> string \<Rightarrow> jsval" where
  "field b k = (case b k of None \<Rightarrow> JUndefined | Some v \<Rightarrow> v)"

subsection \<open>Truthiness\<close>

fun num_truthy :: "jsnum \<Rightarrow> bool" where
  "num_truthy NaN = False"
| "num_truthy PosInf = True"
| "num_truthy NegInf = True"
| "num_truthy (Fin q) = (q \<noteq> 0)"

fun truthy :: "jsval \<Rightarrow> bool" where
  "truthy JUndefined = False"
| "truthy JNull = False"
| "truthy (JBool b) = b"
| "truthy (JNum n) = num_truthy n"
| "truthy (JStr s) = (s \<noteq> [])"
| "truthy (JArr xs) = True"
| "truthy (JObj kvs) = True"

text \<open>\<open>a || b\<close> on values and on numbers.\<close>

definition or_else :: "jsval \<Rightarrow> jsval \<Rightarrow> jsval" where
  "or_else a b = (if truthy a then a else b)"

definition num_or_else :: "jsnum \<Rightarrow> jsnum \<Rightarrow> jsnum" where
  "num_or_else a b = (if num_truthy a then a else b)"

subsection \<open>Strings: white space and \<open>trim\<close>\<close>

text \<open>
  White space and line terminators of the language within the 8-bit range: TAB, LF, VT,
  FF, CR, SP and NBSP.
\<close>

definition is_ws :: "char \<Rightarrow> bool" where
  "is_ws c = (c \<in> set [CHR 0x09, CHR 0x0A, CHR 0x0B, CHR 0x0C, CHR 0x0D, CHR 0x20, CHR 0xA0])"

definition trim :: "string \<Rightarrow> string" where
  "trim s = rev (dropWhile is_ws (rev (dropWhile is_ws s)))"

subsection \<open>Rounding to a double\<close>

text \<open>
  The double nearest to a rational, ties to the even mantissa: with \<open>e\<close> the binary
  exponent of the rational, not below that of the subnormal numbers, the spacing of the
  doubles around it is \<open>2 ^ (e - 52)\<close>, and the rational is rounded to a multiple of the
  spacing. A result of \<open>2 ^ 1024\<close> or more is an infinity; a small rational may round to
  zero.
\<close>

definition round_half_even :: "rat \<Rightarrow> int" where
  "round_half_even y =
     (let f = \<lfloor>y\<rfloor>; d = y - of_int f in
      if d < 1 / 2 then f else if 1 / 2 < d then f + 1 else if even f then f else f + 1)"

text \<open>The binary exponent of a positive rational \<open>q\<close>: \<open>2 ^ e \<le> q < 2 ^ (e + 1)\<close>.\<close>

definition floor_log2 :: "rat \<Rightarrow> int" where
  "floor_log2 q = (if 1 \<le> q then bitlen \<lfloor>q\<rfloor> - 1 else - bitlen (\<lceil>1 / q\<rceil> - 1))"

definition round_pos :: "rat \<Rightarrow> jsnum" where
  "round_pos q =
     (let e = max (floor_log2 q) (- 1022);
          ulp = power_int 2 (e - 52);
          v = of_int (round_half_even (q / ulp)) * ulp
      in if power_int 2 1024 \<le> v then PosInf else Fin v)"

fun negate :: "jsnum \<Rightarrow> jsnum" where
  "negate NaN = NaN"
| "negate PosInf = NegInf"
| "negate NegInf = PosInf"
| "negate (Fin v) = Fin (- v)"

definition round_double :: "rat \<Rightarrow> jsnum" where
  "round_double q =
     (if q = 0 then Fin 0 else if 0 < q then round_pos q else negate (round_pos (- q)))"

text \<open>\<open>Math.floor\<close>.\<close>

fun js_floor :: "jsnum \<Rightarrow> jsnum" where
  "js_floor (Fin v) = Fin (of_int \<lfloor>v\<rfloor>)"
| "js_floor n = n"

subsection \<open>Numbers to strings\<close>

definition digit_char :: "nat \<Rightarrow> char" where
  "digit_char d = ''0123456789'' ! (d mod 10)"

fun digits :: "nat \<Rightarrow> string" where
  "digits n = (if n < 10 then [digit_char n] else digits (n div 10) @ [digit_char (n mod 10)])"

declare digits.simps [simp del]

text \<open>Dropping the trailing zeros of a mantissa, so that it has as few digits as possible.\<close>

fun strip10 :: "nat \<Rightarrow> int \<Rightarrow> nat \<times> int" where
  "strip10 m e = (if m \<noteq> 0 \<and> m mod 10 = 0 then strip10 (m div 10) (e + 1) else (m, e))"

declare strip10.simps [simp del]

text \<open>
  \<open>Number::toString\<close> of a positive decimal: with \<open>s\<close> the mantissa, \<open>k\<close> its number of
  digits and \<open>n = k + e\<close> the position of the decimal point, the four shapes of the
  language definition.
\<close>

definition pos_to_string :: "nat \<Rightarrow> int \<Rightarrow> string" where
  "pos_to_string m e =
     (let (s, e') = strip10 m e; ds = digits s; k = int (length ds); n = k + e' in
      if k \<le> n \<and> n \<le> 21 then ds @ replicate (nat (n - k)) CHR ''0''
      else if 0 < n \<and> n \<le> 21 then take (nat n) ds @ ''.'' @ drop (nat n) ds
      else if -6 < n \<and> n \<le> 0 then ''0.'' @ replicate (nat (- n)) CHR ''0'' @ ds
      else
        (let ex = (if n - 1 < 0 then ''-'' else ''+'') @ digits (nat \<bar>n - 1\<bar>) in
         if k = 1 then ds @ ''e'' @ ex
         else take 1 ds @ ''.'' @ drop 1 ds @ ''e'' @ ex))"

text \<open>
  The digits that \<open>Number::toString\<close> prints for a positive double \<open>q\<close>: the decimal
  \<open>s * 10 ^ p\<close> of the fewest digits \<open>k\<close> that rounds to \<open>q\<close>, and among those of \<open>k\<close>
  digits the one nearest to \<open>q\<close>. With \<open>n0\<close> the decimal position of \<open>q\<close>
  (\<open>10 ^ (n0 - 1) \<le> q < 10 ^ n0\<close>), the candidates of \<open>k\<close> digits are the two multiples of
  \<open>10 ^ (n0 - k)\<close> around \<open>q\<close>; seventeen digits always suffice for a double. For an
  integer below \<open>2 ^ 53\<close> the decimal is the integer itself.
\<close>

definition decimal_pos :: "rat \<Rightarrow> int" where
  "decimal_pos q =
     (if 1 \<le> q then int (length (digits (nat \<lfloor>q\<rfloor>)))
      else 1 - int (length (digits (nat (\<lceil>1 / q\<rceil> - 1)))))"

definition pick :: "rat \<Rightarrow> rat \<Rightarrow> int \<Rightarrow> int option" where
  "pick q unit lo =
     (let hi = lo + 1;
          ok_lo = (round_double (of_int lo * unit) = Fin q);
          ok_hi = (round_double (of_int hi * unit) = Fin q);
          dl = q - of_int lo * unit;
          dh = of_int hi * unit - q
      in if ok_lo \<and> ok_hi then
           Some (if dl < dh then lo else if dh < dl then hi else if even lo then lo else hi)
         else if ok_lo then Some lo
         else if ok_hi then Some hi
         else None)"

fun shortest_dec :: "rat \<Rightarrow> int \<Rightarrow> nat \<Rightarrow> nat \<Rightarrow> nat \<times> int" where
  "shortest_dec q n0 k 0 = (nat \<lfloor>q / power_int 10 (n0 - int k)\<rfloor>, n0 - int k)"
| "shortest_dec q n0 k (Suc fuel) =
     (let unit = power_int 10 (n0 - int k) in
      case pick q unit \<lfloor>q / unit\<rfloor> of
        Some s \<Rightarrow> (nat s, n0 - int k)
      | None \<Rightarrow> shortest_dec q n0 (Suc k) fuel)"

definition finite_to_string :: "rat \<Rightarrow> string" where
  "finite_to_string a =
     (if a = of_int \<lfloor>a\<rfloor> \<and> a < 2 ^ 53 then pos_to_string (nat \<lfloor>a\<rfloor>) 0
      else (let (s, p) = shortest_dec a (decimal_pos a) 1 17 in pos_to_string s p))"

fun num_to_string :: "jsnum \<Rightarrow> string" where
  "num_to_string NaN = ''NaN''"
| "num_to_string PosInf = ''Infinity''"
| "num_to_string NegInf = ''-Infinity''"
| "num_to_string (Fin q) =
     (if q = 0 then ''0''
      else if q < 0 then ''-'' @ finite_to_string (- q)
      else finite_to_string q)"

subsection \<open>\<open>ToString\<close> of a value\<close>

text \<open>
  \<open>ToString\<close> of an object converts it to a primitive first. For an object of the body
  parser that calls \<open>Object.prototype.toString\<close>, unless the object has an own key
  \<open>toString\<close> (never a function in parsed data), in which case the conversion throws a
  \<open>TypeError\<close>: the result \<open>None\<close>. An array is joined with commas, \<open>undefined\<close> and
  \<open>null\<close> elements giving the empty string.
\<close>

fun join_comma :: "string list \<Rightarrow> string" where
  "join_comma [] = []"
| "join_comma [s] = s"
| "join_comma (s # t # ss) = s @ '','' @ join_comma (t # ss)"

fun sequence_opt :: "'a option list \<Rightarrow> 'a list option" where
  "sequence_opt [] = Some []"
| "sequence_opt (None # xs) = None"
| "sequence_opt (Some x # xs) = (case sequence_opt xs of None \<Rightarrow> None | Some ys \<Rightarrow> Some (x # ys))"

fun to_string :: "jsval \<Rightarrow> string option"
  and elem_to_string :: "jsval \<Rightarrow> string option" where
  "to_string JUndefined = Some ''undefined''"
| "to_string JNull = Some ''null''"
| "to_string (JBool b) = Some (if b then ''true'' else ''false'')"
| "to_string (JNum n) = Some (num_to_string n)"
| "to_string (JStr s) = Some s"
| "to_string (JArr xs) =
     (case sequence_opt (map elem_to_string xs) of
        None \<Rightarrow> None
      | Some ss \<Rightarrow> Some (join_comma ss))"
| "to_string (JObj kvs) =
     (if ''toString'' \<in> fst ` set kvs then None else Some ''[object Object]'')"
| "elem_to_string JUndefined = Some []"
| "elem_to_string JNull = Some []"
| "elem_to_string (JBool b) = to_string (JBool b)"
| "elem_to_string (JNum n) = to_string (JNum n)"
| "elem_to_string (JStr s) = to_string (JStr s)"
| "elem_to_string (JArr xs) = to_string (JArr xs)"
| "elem_to_string (JObj kvs) = to_string (JObj kvs)"

subsection \<open>\<open>parseInt\<close> and \<open>parseFloat\<close>\<close>

text \<open>
  The value of a character as a digit: \<open>0\<close> to \<open>9\<close>, then the letters in either case
  from 10 on; 36 for a character that is a digit in no radix.
\<close>

definition dv :: "char \<Rightarrow> nat" where
  "dv c = (let n = (of_char c :: nat) in
     if 48 \<le> n \<and> n \<le> 57 then n - 48
     else if 97 \<le> n \<and> n \<le> 122 then n - 87
     else if 65 \<le> n \<and> n \<le> 90 then n - 55
     else 36)"

definition is_digit :: "char \<Rightarrow> bool" where
  "is_digit c = (dv c < 10)"

definition radix_value :: "nat \<Rightarrow> string \<Rightarrow> nat" where
  "radix_value r z = foldl (\<lambda>acc c. acc * r + dv c) 0 z"

definition split_sign :: "string \<Rightarrow> bool \<times> string" where
  "split_sign s =
     (case s of
        [] \<Rightarrow> (False, [])
      | c # r \<Rightarrow> if c = CHR ''-'' then (True, r) else if c = CHR ''+'' then (False, r) else (False, s))"

definition signed :: "bool \<Rightarrow> nat \<Rightarrow> int" where
  "signed neg n = (if neg then - int n else int n)"

text \<open>
  \<open>parseInt(string)\<close> with no radix: skip leading white space, read a sign, read the
  prefix \<open>0x\<close> (then the radix is 16, else 10), read the longest run of digits of the
  radix; no digit gives \<open>NaN\<close>. The integer read is rounded to a double.
\<close>

definition parse_int_string :: "string \<Rightarrow> jsnum" where
  "parse_int_string s =
     (let (neg, s2) = split_sign (dropWhile is_ws s);
          hex = (take 2 s2 = ''0x'' \<or> take 2 s2 = ''0X'');
          r = (if hex then 16 else 10);
          s3 = (if hex then drop 2 s2 else s2);
          z = takeWhile (\<lambda>c. dv c < r) s3
      in if z = [] then NaN else round_double (of_int (signed neg (radix_value r z))))"

text \<open>
  \<open>parseFloat(string)\<close>: skip leading white space, then the longest prefix that is a
  decimal literal: a sign, \<open>Infinity\<close> or digits with an optional fraction and an optional
  exponent (read only when it has a digit). The decimal read is rounded to a double.
\<close>

definition parse_exponent :: "string \<Rightarrow> int" where
  "parse_exponent s =
     (case s of
        [] \<Rightarrow> 0
      | c # r \<Rightarrow>
          if c = CHR ''e'' \<or> c = CHR ''E'' then
            (let (eneg, r2) = split_sign r; ed = takeWhile is_digit r2 in
             if ed = [] then 0 else signed eneg (radix_value 10 ed))
          else 0)"

definition parse_float_string :: "string \<Rightarrow> jsnum" where
  "parse_float_string s =
     (let (neg, s2) = split_sign (dropWhile is_ws s) in
      if take 8 s2 = ''Infinity'' then (if neg then NegInf else PosInf)
      else
        (let ip = takeWhile is_digit s2;
             r1 = dropWhile is_digit s2;
             has_dot = (take 1 r1 = ''.'');
             fp = (if has_dot then takeWhile is_digit (drop 1 r1) else []);
             r2 = (if has_dot then dropWhile is_digit (drop 1 r1) else r1)
         in if ip = [] \<and> fp = [] then NaN
            else round_double
                   (of_int (signed neg (radix_value 10 (ip @ fp)))
                    * power_int 10 (parse_exponent r2 - int (length fp)))))"

text \<open>Both convert their argument with \<open>ToString\<close> first; \<open>None\<close> is the thrown \<open>TypeError\<close>.\<close>

definition parseInt :: "jsval \<Rightarrow> jsnum option" where
  "parseInt v = map_option parse_int_string (to_string v)"

definition parseFloat :: "jsval \<Rightarrow> jsnum option" where
  "parseFloat v = map_option parse_float_string (to_string v)"

subsection \<open>Dates\<close>

text \<open>
  A date is its time value, an integer of milliseconds, or is invalid. \<open>new Date(v)\<close>
  converts an object to a primitive first (and throws where \<open>ToString\<close> does: the result
  \<open>None\<close>); a string is parsed by \<open>Date.parse\<close>, which the language leaves to the engine
  for every format but one and which is a parameter here; any other value is converted to
  a number. The time value is clipped: beyond 8.64e15 milliseconds the date is invalid.
\<close>

datatype jsdate = InvalidDate | AtTime int

definition time_clip :: "jsnum \<Rightarrow> jsdate" where
  "time_clip n =
     (case n of
        Fin v \<Rightarrow>
          if \<bar>v\<bar> \<le> 8640000000000000 then AtTime (if 0 \<le> v then \<lfloor>v\<rfloor> else \<lceil>v\<rceil>)
          else InvalidDate
      | _ \<Rightarrow> InvalidDate)"

definition parsed_date :: "(string \<Rightarrow> int option) \<Rightarrow> string \<Rightarrow> jsdate" where
  "parsed_date parse s =
     (case parse s of None \<Rightarrow> InvalidDate | Some t \<Rightarrow> time_clip (Fin (of_int t)))"

definition new_Date :: "(string \<Rightarrow> int option) \<Rightarrow> jsval \<Rightarrow> jsdate option" where
  "new_Date parse v =
     (case v of
        JUndefined \<Rightarrow> Some InvalidDate
      | JNull \<Rightarrow> Some (AtTime 0)
      | JBool b \<Rightarrow> Some (AtTime (if b then 1 else 0))
      | JNum n \<Rightarrow> Some (time_clip n)
      | JStr s \<Rightarrow> Some (parsed_date parse s)
      | _ \<Rightarrow> map_option (parsed_date parse) (to_string v))"

section \<open>Errors\<close>

text \<open>An exception object: its \<open>name\<close>, its \<open>message\<close> and its \<open>code\<close>, which may be absent.\<close>

datatype err_code = NoCode | NumCode int | StrCode string

datatype js_error = JsError (err_name: string) (err_message: string) (err_code: err_code)

definition type_error :: "string \<Rightarrow> js_error" where
  "type_error msg = JsError ''TypeError'' msg NoCode"

definition to_primitive_error :: js_error where
  "to_primitive_error = type_error ''Cannot convert object to primitive value''"

definition or_throw :: "'a option \<Rightarrow> js_error + 'a" where
  "or_throw x = (case x of None \<Rightarrow> Inl to_primitive_error | Some y \<Rightarrow> Inr y)"

definition bind_err :: "'e + 'a \<Rightarrow> ('a \<Rightarrow> 'e + 'b) \<Rightarrow> 'e + 'b" where
  "bind_err x f = (case x of Inl e \<Rightarrow> Inl e | Inr y \<Rightarrow> f y)"

text \<open>
  The method call \<open>v.trim()\<close> on the variable \<open>nm\<close>: only a string has the method, any
  other value throws a \<open>TypeError\<close>.
\<close>

definition call_trim :: "string \<Rightarrow> jsval \<Rightarrow> js_error + string" where
  "call_trim nm v =
     (case v of
        JStr s \<Rightarrow> Inr (trim s)
      | JUndefined \<Rightarrow> Inl (type_error ''Cannot read properties of undefined (reading 'trim')'')
      | JNull \<Rightarrow> Inl (type_error ''Cannot read properties of null (reading 'trim')'')
      | _ \<Rightarrow> Inl (type_error (nm @ ''.trim is not a function'')))"

section \<open>Booking records and the persistence gateway\<close>

text \<open>
  \<open>bookingData\<close>, the object literal that the create handler hands to the model
  constructor, with the fourteen keys it is written with. \<open>carModel\<close>, \<open>pickupLocation\<close>
  and \<open>specialRequests\<close> are passed through from the body, so they are values.
\<close>

record booking_data =
  name :: string
  email :: string
  phone :: string
  carModel :: jsval
  carId :: jsnum
  pickupDate :: jsdate
  returnDate :: jsdate
  pickupLocation :: jsval
  specialRequests :: jsval
  dailyRate :: jsnum
  rentalDays :: jsnum
  totalAmount :: jsnum
  bookingId :: string
  status :: string

text \<open>
  The schema declares \<open>carModel\<close>, \<open>pickupLocation\<close> and \<open>specialRequests\<close> as
  \<open>String\<close>, and the model constructor casts what it is given. The cast to \<open>String\<close>
  keeps \<open>null\<close> and \<open>undefined\<close>, takes the \<open>_id\<close> of an object that has one that is a
  non-empty string, prints a string, a number or a boolean with its \<open>toString\<close>, and fails
  on an array and on any other object (\<open>None\<close>). A \<open>Number\<close> path keeps a number that is
  not \<open>NaN\<close>, which the handler never hands over, and a \<open>Date\<close> path keeps a valid date
  and fails on an invalid one.
\<close>

definition own_property :: "(string \<times> jsval) list \<Rightarrow> string \<Rightarrow> jsval" where
  "own_property kvs k = (case map_of (rev kvs) k of None \<Rightarrow> JUndefined | Some v \<Rightarrow> v)"

definition cast_string :: "jsval \<Rightarrow> jsval option" where
  "cast_string v =
     (case v of
        JUndefined \<Rightarrow> Some JUndefined
      | JNull \<Rightarrow> Some JNull
      | JBool b \<Rightarrow> Some (JStr (if b then ''true'' else ''false''))
      | JNum n \<Rightarrow> Some (JStr (num_to_string n))
      | JStr s \<Rightarrow> Some (JStr s)
      | JArr xs \<Rightarrow> None
      | JObj kvs \<Rightarrow>
          (case own_property kvs ''_id'' of
             JStr i \<Rightarrow> if i \<noteq> [] then Some (JStr i) else None
           | _ \<Rightarrow> None))"

definition cast_or_unset :: "jsval \<Rightarrow> jsval" where
  "cast_or_unset v = (case cast_string v of None \<Rightarrow> JUndefined | Some c \<Rightarrow> c)"

text \<open>The paths of \<open>bookingData\<close> that fail to cast, in the order of the schema.\<close>

definition failed_paths :: "booking_data \<Rightarrow> string list" where
  "failed_paths d =
     (if cast_string (carModel d) = None then [''carModel''] else [])
     @ (if pickupDate d = InvalidDate then [''pickupDate''] else [])
     @ (if returnDate d = InvalidDate then [''returnDate''] else [])
     @ (if cast_string (pickupLocation d) = None then [''pickupLocation''] else [])
     @ (if cast_string (specialRequests d) = None then [''specialRequests''] else [])"

text \<open>
  A document: the data as cast, the identifier \<open>_id\<close> given by the model constructor,
  \<open>createdAt\<close>, whose schema default is \<open>Date.now\<close>, and the paths that failed to cast,
  which the document keeps until it is validated. A path that failed is left unset.
\<close>

record stored = booking_data +
  doc_id :: string
  createdAt :: int
  invalid_paths :: "string list"

definition new_Booking :: "booking_data \<Rightarrow> string \<Rightarrow> nat \<Rightarrow> stored" where
  "new_Booking d oid t =
     booking_data.extend
       (d\<lparr> carModel := cast_or_unset (carModel d),
           pickupLocation := cast_or_unset (pickupLocation d),
           specialRequests := cast_or_unset (specialRequests d) \<rparr>)
       \<lparr> doc_id = oid, createdAt = int t, invalid_paths = failed_paths d \<rparr>"

text \<open>
  The collection, and the log of the operations that the handlers issued on the gateway:
  the log is what "the store was not touched" and "one retry" are stated on.
\<close>

datatype store_op = OpSave stored | OpFind | OpCount

record store =
  docs :: "stored list"
  oplog :: "store_op list"

text \<open>
  What a request finds around it: the connection state (\<open>mongoose.connection.readyState\<close>,
  1 when connected), \<open>NODE_ENV\<close>, the clock at each of its reads, the two draws of
  \<open>Math.random()\<close> (doubles), the identifiers of the two documents that the handler may
  construct, the engine's \<open>Date.parse\<close> (\<open>None\<close> for \<open>NaN\<close>), the message that the library
  composes when a document fails validation, and for each gateway operation whether the
  store rejects it and with what error.
\<close>

record env =
  readyState :: nat
  node_env :: "string option"
  db_name :: "string option"
  now_id :: nat
  now_doc :: nat
  now_retry_id :: nat
  now_retry_doc :: nat
  now_response :: nat
  random_first :: rat
  random_retry :: rat
  oid_first :: string
  oid_retry :: string
  date_parse :: "string \<Rightarrow> int option"
  validation_message :: string
  save_first :: "js_error option"
  save_retry :: "js_error option"
  find_fault :: "js_error option"
  count_fault :: "js_error option"

text \<open>
  An operation issued while the connection is down is buffered by the driver and rejected
  when the buffering time is over: with the connection state fixed for the length of the
  request, it fails. The message names the operation.
\<close>

definition buffering_timeout :: "string \<Rightarrow> js_error" where
  "buffering_timeout operation =
     JsError ''MongooseError''
       (''Operation `bookings.'' @ operation @ ''()` buffering timed out after 10000ms'') NoCode"

text \<open>
  \<open>save()\<close> validates the document first: a document with a path that failed to cast is
  rejected with a \<open>ValidationError\<close> and no insert is sent. Otherwise the insert is sent,
  and the store takes it or rejects it.
\<close>

definition validation_error :: "env \<Rightarrow> js_error" where
  "validation_error env = JsError ''ValidationError'' (validation_message env) NoCode"

definition save :: "env \<Rightarrow> js_error option \<Rightarrow> stored \<Rightarrow> store \<Rightarrow> (js_error + stored) \<times> store" where
  "save env fault d st =
     (let st1 = st\<lparr>oplog := oplog st @ [OpSave d]\<rparr> in
      if invalid_paths d \<noteq> [] then (Inl (validation_error env), st1)
      else if readyState env \<noteq> 1 then (Inl (buffering_timeout ''insertOne''), st1)
      else case fault of
             Some e \<Rightarrow> (Inl e, st1)
           | None \<Rightarrow> (Inr d, st1\<lparr>docs := docs st1 @ [d]\<rparr>))"

text \<open>
  \<open>Booking.find().limit(n).sort({ createdAt: -1 })\<close>: the query sorts before it limits,
  whatever the order of the two calls. Documents of equal \<open>createdAt\<close> come in some order;
  the model takes the later insert first.
\<close>

definition find_latest :: "env \<Rightarrow> nat \<Rightarrow> store \<Rightarrow> (js_error + stored list) \<times> store" where
  "find_latest env n st =
     (let st1 = st\<lparr>oplog := oplog st @ [OpFind]\<rparr> in
      if readyState env \<noteq> 1 then (Inl (buffering_timeout ''find''), st1)
      else case find_fault env of
             Some e \<Rightarrow> (Inl e, st1)
           | None \<Rightarrow> (Inr (take n (rev (sort_key createdAt (docs st)))), st1))"

definition countDocuments :: "env \<Rightarrow> store \<Rightarrow> (js_error + nat) \<times> store" where
  "countDocuments env st =
     (let st1 = st\<lparr>oplog := oplog st @ [OpCount]\<rparr> in
      if readyState env \<noteq> 1 then (Inl (buffering_timeout ''countDocuments''), st1)
      else case count_fault env of
             Some e \<Rightarrow> (Inl e, st1)
           | None \<Rightarrow> (Inr (length (docs st)), st1))"

section \<open>Responses\<close>

text \<open>
  The object given to \<open>res.json\<close>: a request value, a date, the ISO string of a time
  (\<open>toISOString\<close>), an object or an array. An \<open>ObjectId\<close> is serialised as its string.
  Serialisation leaves out a key whose value is \<open>undefined\<close>.
\<close>

datatype rval =
    V jsval
  | D jsdate
  | Iso nat
  | Obj "(string \<times> rval) list"
  | Arr "rval list"

record response =
  res_status :: nat
  res_body :: "(string \<times> rval) list"

definition json_field :: "response \<Rightarrow> string \<Rightarrow> rval option" where
  "json_field r k =
     (case map_of (res_body r) k of
        None \<Rightarrow> None
      | Some v \<Rightarrow> if v = V JUndefined then None else Some v)"

text \<open>The members of the body as serialised.\<close>

definition json_body :: "response \<Rightarrow> (string \<times> rval) list" where
  "json_body r = filter (\<lambda>kv. snd kv \<noteq> V JUndefined) (res_body r)"

definition num :: "int \<Rightarrow> rval" where
  "num n = V (JNum (Fin (of_int n)))"

definition str :: "string \<Rightarrow> rval" where
  "str s = V (JStr s)"

definition code_val :: "err_code \<Rightarrow> rval" where
  "code_val c = (case c of NoCode \<Rightarrow> V JUndefined | NumCode n \<Rightarrow> num n | StrCode s \<Rightarrow> str s)"

section \<open>The create handler: \<open>POST /api/bookings\<close>\<close>

text \<open>
  \<open>Math.floor(Math.random() * bound)\<close>, the product rounded to a double, and the booking
  identifier, a template literal of \<open>CR\<close>, \<open>Date.now()\<close> and that number.
\<close>

definition random_int :: "rat \<Rightarrow> nat \<Rightarrow> jsnum" where
  "random_int r bound = js_floor (round_double (r * of_nat bound))"

definition booking_id :: "nat \<Rightarrow> rat \<Rightarrow> nat \<Rightarrow> string" where
  "booking_id t r bound =
     ''CR'' @ num_to_string (Fin (of_nat t)) @ num_to_string (random_int r bound)"

text \<open>
  The object literal, its properties evaluated in the order written: the first conversion
  that throws ends it.
\<close>

definition build_booking_data :: "env \<Rightarrow> body \<Rightarrow> string \<Rightarrow> js_error + booking_data" where
  "build_booking_data env b bid =
     bind_err (call_trim ''name'' (field b ''name'')) (\<lambda>n.
     bind_err (call_trim ''email'' (field b ''email'')) (\<lambda>e.
     bind_err (call_trim ''phone'' (field b ''phone'')) (\<lambda>p.
     bind_err (or_throw (parseInt (field b ''carId''))) (\<lambda>cid.
     bind_err (or_throw (new_Date (date_parse env) (field b ''pickupDate''))) (\<lambda>pd.
     bind_err (or_throw (new_Date (date_parse env) (field b ''returnDate''))) (\<lambda>rd.
     bind_err (or_throw (parseFloat (field b ''dailyRate''))) (\<lambda>dr.
     bind_err (or_throw (parseInt (field b ''rentalDays''))) (\<lambda>days.
     bind_err (or_throw (parseFloat (field b ''totalAmount''))) (\<lambda>total.
       Inr \<lparr> name = n,
             email = e,
             phone = p,
             carModel = field b ''carModel'',
             carId = num_or_else cid (Fin 1),
             pickupDate = pd,
             returnDate = rd,
             pickupLocation = field b ''location'',
             specialRequests = or_else (field b ''requests'') (JStr []),
             dailyRate = num_or_else dr (Fin 0),
             rentalDays = num_or_else days (Fin 1),
             totalAmount = num_or_else total (Fin 0),
             bookingId = bid,
             status = ''confirmed'' \<rparr>)))))))))"

text \<open>
  The save with its one retry: on an error whose code is 11000 the identifier is
  generated again (random bound 10000) and a second document is saved; an error of that
  second save, like any other error of the first (a validation error among them), is
  thrown on.
\<close>

definition first_doc :: "env \<Rightarrow> booking_data \<Rightarrow> stored" where
  "first_doc env bookingData = new_Booking bookingData (oid_first env) (now_doc env)"

definition retry_doc :: "env \<Rightarrow> booking_data \<Rightarrow> stored" where
  "retry_doc env bookingData =
     new_Booking
       (bookingData\<lparr>bookingId := booking_id (now_retry_id env) (random_retry env) 10000\<rparr>)
       (oid_retry env) (now_retry_doc env)"

definition save_with_retry :: "env \<Rightarrow> booking_data \<Rightarrow> store \<Rightarrow> (js_error + stored) \<times> store" where
  "save_with_retry env bookingData st =
     (case save env (save_first env) (first_doc env bookingData) st of
        (Inr savedBooking, st1) \<Rightarrow> (Inr savedBooking, st1)
      | (Inl dbError, st1) \<Rightarrow>
          if err_code dbError = NumCode 11000 then
            save env (save_retry env) (retry_doc env bookingData) st1
          else (Inl dbError, st1))"

text \<open>
  The message literals of the source that begin with a pictograph (a character outside
  the 8-bit range) are written without it.
\<close>

definition created_response :: "env \<Rightarrow> stored \<Rightarrow> response" where
  "created_response env savedBooking =
     \<lparr> res_status = 201,
       res_body =
         [(''success'', V (JBool True)),
          (''message'', str ''Booking confirmed successfully!''),
          (''bookingId'', str (bookingId savedBooking)),
          (''booking'', Obj
             [(''id'', str (doc_id savedBooking)),
              (''name'', str (name savedBooking)),
              (''carModel'', V (carModel savedBooking)),
              (''pickupDate'', D (pickupDate savedBooking)),
              (''totalAmount'', V (JNum (totalAmount savedBooking)))]),
          (''timestamp'', Iso (now_response env))] \<rparr>"

definition missing_fields_response :: response where
  "missing_fields_response =
     \<lparr> res_status = 400,
       res_body =
         [(''success'', V (JBool False)),
          (''message'', str ''Please provide all required fields: name, email, phone, car model'')] \<rparr>"

definition unavailable_response :: response where
  "unavailable_response =
     \<lparr> res_status = 503,
       res_body =
         [(''success'', V (JBool False)),
          (''message'', str ''Database not available. Please try again later.''),
          (''error'', str ''Database disconnected'')] \<rparr>"

text \<open>The \<open>catch\<close> clause of the handler.\<close>

definition error_status :: "js_error \<Rightarrow> nat" where
  "error_status error =
     (if err_name error = ''ValidationError'' then 400
      else if err_code error = NumCode 11000 then 409
      else 500)"

definition error_message :: "js_error \<Rightarrow> string" where
  "error_message error =
     (if err_name error = ''ValidationError'' then ''Invalid booking data provided.''
      else if err_code error = NumCode 11000 then ''Duplicate booking detected. Please try again.''
      else ''An unexpected error occurred. Please try again.'')"

definition error_response :: "env \<Rightarrow> js_error \<Rightarrow> response" where
  "error_response env error =
     \<lparr> res_status = error_status error,
       res_body =
         [(''success'', V (JBool False)),
          (''message'', str (error_message error)),
          (''error'', if node_env env = Some ''development'' then str (err_message error)
                      else V JUndefined),
          (''code'', code_val (err_code error))] \<rparr>"

text \<open>The \<open>try\<close> block: validation, the object literal, the save, the response.\<close>

definition required :: "string list" where
  "required = [''name'', ''email'', ''phone'', ''carModel'']"

definition create_try :: "env \<Rightarrow> body \<Rightarrow> store \<Rightarrow> (js_error + response) \<times> store" where
  "create_try env b st =
     (if \<not> truthy (field b ''name'') \<or> \<not> truthy (field b ''email'')
         \<or> \<not> truthy (field b ''phone'') \<or> \<not> truthy (field b ''carModel'')
      then (Inr missing_fields_response, st)
      else
        case build_booking_data env b (booking_id (now_id env) (random_first env) 1000) of
          Inl e \<Rightarrow> (Inl e, st)
        | Inr bookingData \<Rightarrow>
            (case save_with_retry env bookingData st of
               (Inl e, st') \<Rightarrow> (Inl e, st')
             | (Inr savedBooking, st') \<Rightarrow> (Inr (created_response env savedBooking), st')))"

definition create_booking :: "env \<Rightarrow> body \<Rightarrow> store \<Rightarrow> response \<times> store" where
  "create_booking env b st =
     (if readyState env \<noteq> 1 then (unavailable_response, st)
      else case create_try env b st of
             (Inr r, st') \<Rightarrow> (r, st')
           | (Inl error, st') \<Rightarrow> (error_response env error, st'))"

section \<open>The list handler: \<open>GET /api/bookings\<close>\<close>

definition list_entry :: "stored \<Rightarrow> rval" where
  "list_entry b =
     Obj [(''id'', str (doc_id b)),
          (''bookingId'', str (bookingId b)),
          (''name'', str (name b)),
          (''carModel'', V (carModel b)),
          (''status'', str (status b)),
          (''createdAt'', D (AtTime (createdAt b)))]"

definition list_bookings :: "env \<Rightarrow> store \<Rightarrow> response \<times> store" where
  "list_bookings env st =
     (case find_latest env 10 st of
        (Inr bookings, st') \<Rightarrow>
          (\<lparr> res_status = 200,
             res_body =
               [(''success'', V (JBool True)),
                (''count'', num (int (length bookings))),
                (''bookings'', Arr (map list_entry bookings))] \<rparr>, st')
      | (Inl error, st') \<Rightarrow>
          (\<lparr> res_status = 500,
             res_body =
               [(''success'', V (JBool False)),
                (''message'', str ''Failed to fetch bookings''),
                (''error'', str (err_message error))] \<rparr>, st'))"

section \<open>The other routes\<close>

text \<open>\<open>GET /\<close>.\<close>

definition root_info :: "env \<Rightarrow> response" where
  "root_info env =
     \<lparr> res_status = 200,
       res_body =
         [(''message'', str ''Car Rental Backend API''),
          (''status'', str ''running''),
          (''timestamp'', Iso (now_response env)),
          (''database'', str (if readyState env = 1 then ''connected'' else ''disconnected'')),
          (''version'', str ''1.0.0'')] \<rparr>"

text \<open>
  \<open>GET /api/db-status\<close>. \<open>states[state]\<close> is \<open>undefined\<close> out of the array. The count
  swallows its failure into \<open>-1\<close>; reading the database name of a connection that has no
  database handle throws, which the \<open>catch\<close> clause answers.
\<close>

definition states :: "string list" where
  "states = [''disconnected'', ''connected'', ''connecting'', ''disconnecting'']"

definition state_name :: "nat \<Rightarrow> jsval" where
  "state_name state = (if state < length states then JStr (states ! state) else JUndefined)"

definition template :: "jsval \<Rightarrow> string" where
  "template v = (case to_string v of None \<Rightarrow> [] | Some s \<Rightarrow> s)"

definition db_status :: "env \<Rightarrow> store \<Rightarrow> response \<times> store" where
  "db_status env st =
     (let state = readyState env in
      if state \<noteq> 1 then
        (\<lparr> res_status = 200,
           res_body =
             [(''success'', V (JBool False)),
              (''message'', str (''Database is '' @ template (state_name state))),
              (''state'', V (state_name state))] \<rparr>, st)
      else
        (case countDocuments env st of
           (r, st') \<Rightarrow>
             (let count = (case r of Inl _ \<Rightarrow> - 1 | Inr n \<Rightarrow> int n) in
              case db_name env of
                Some databaseName \<Rightarrow>
                  (\<lparr> res_status = 200,
                     res_body =
                       [(''success'', V (JBool True)),
                        (''message'', str ''Database is connected and responsive''),
                        (''state'', V (state_name state)),
                        (''bookingCount'', num count),
                        (''database'', str databaseName)] \<rparr>, st')
              | None \<Rightarrow>
                  (\<lparr> res_status = 200,
                     res_body =
                       [(''success'', V (JBool False)),
                        (''message'', str ''Database check failed''),
                        (''error'', str ''Cannot read properties of undefined (reading 'databaseName')''),
                        (''state'', num (int (readyState env)))] \<rparr>, st'))))"

text \<open>The 404 fallback and the error-handling middleware.\<close>

definition not_found :: "string \<Rightarrow> response" where
  "not_found originalUrl =
     \<lparr> res_status = 404,
       res_body =
         [(''success'', V (JBool False)),
          (''message'', str (''Route '' @ originalUrl @ '' not found''))] \<rparr>"

definition error_middleware :: "env \<Rightarrow> js_error \<Rightarrow> response" where
  "error_middleware env err =
     \<lparr> res_status = 500,
       res_body =
         [(''success'', V (JBool False)),
          (''message'', str ''Internal server error''),
          (''error'', if node_env env = Some ''development'' then str (err_message err)
                      else V JUndefined)] \<rparr>"

section \<open>The service\<close>

text \<open>
  A request as the router sees it: one of the four routes, a request that matches none
  (with its URL), or a request whose processing raised an error before a route answered
  (a body that does not parse), which goes to the error-handling middleware.
\<close>

datatype request =
    GetRoot
  | GetDbStatus
  | PostBookings body
  | GetBookings
  | Unmatched string
  | Raised js_error

fun api :: "env \<Rightarrow> request \<Rightarrow> store \<Rightarrow> response \<times> store" where
  "api env GetRoot st = (root_info env, st)"
| "api env GetDbStatus st = db_status env st"
| "api env (PostBookings b) st = create_booking env b st"
| "api env GetBookings st = list_bookings env st"
| "api env (Unmatched url) st = (not_found url, st)"
| "api env (Raised err) st = (error_middleware env err, st)"

text \<open>A run of the service: requests answered one after the other, each in its environment.\<close>

fun run :: "(env \<times> request) list \<Rightarrow> store \<Rightarrow> store" where
  "run [] st = st"
| "run ((env, req) # rest) st = run rest (snd (api env req st))"

text \<open>The twelve keys that the create handler reads from the body.\<close>

definition read_keys :: "string list" where
  "read_keys = [''name'', ''email'', ''phone'', ''carModel'', ''carId'', ''pickupDate'',
                ''returnDate'', ''location'', ''requests'', ''dailyRate'', ''rentalDays'',
                ''totalAmount'']"

text \<open>Field tests on a response as serialised.\<close>

definition has_bool :: "response \<Rightarrow> string \<Rightarrow> bool" where
  "has_bool r k = (case json_field r k of Some (V (JBool b)) \<Rightarrow> True | _ \<Rightarrow> False)"

definition has_string :: "response \<Rightarrow> string \<Rightarrow> bool" where
  "has_string r k = (case json_field r k of Some (V (JStr s)) \<Rightarrow> True | _ \<Rightarrow> False)"

section \<open>Notions used by the properties\<close>

text \<open>
  The driver's duplicate-key error: an error of the server with code 11000 (so not an
  error of the schema validation, whose name is \<open>ValidationError\<close>).
\<close>

definition duplicate_key :: "js_error \<Rightarrow> bool" where
  "duplicate_key e = (err_code e = NumCode 11000 \<and> err_name e \<noteq> ''ValidationError'')"








text \<open>The fixed texts of the create handler's failure responses.\<close>

definition fixed_messages :: "string list" where
  "fixed_messages =
     [''Database not available. Please try again later.'',
      ''Please provide all required fields: name, email, phone, car model'',
      ''Invalid booking data provided.'',
      ''Duplicate booking detected. Please try again.'',
      ''An unexpected error occurred. Please try again.'']"

section \<open>Sample inputs\<close>

text \<open>
  A connected production deployment, the example request of the specification, and the
  empty collection.
\<close>

definition demo_date_parse :: "string \<Rightarrow> int option" where
  "demo_date_parse s =
     (if s = ''2024-01-01'' then Some 1704067200000
      else if s = ''2024-01-03'' then Some 1704240000000
      else None)"

definition demo_env :: env where
  "demo_env =
     \<lparr> readyState = 1, node_env = Some ''production'', db_name = Some ''car_rental'',
       now_id = 1704067200000, now_doc = 1704067200001,
       now_retry_id = 1704067200002, now_retry_doc = 1704067200003,
       now_response = 1704067200004,
       random_first = 1 / 8, random_retry = 3 / 4,
       oid_first = ''65920080a1b2c3d4e5f60718'', oid_retry = ''65920080a1b2c3d4e5f60719'',
       date_parse = demo_date_parse,
       validation_message = ''Booking validation failed'',
       save_first = None, save_retry = None, find_fault = None, count_fault = None \<rparr>"

definition demo_body :: body where
  "demo_body =
     [''name'' \<mapsto> JStr ''A'', ''email'' \<mapsto> JStr ''a@x.com'', ''phone'' \<mapsto> JStr ''123'',
      ''carModel'' \<mapsto> JStr ''Sedan'', ''carId'' \<mapsto> JNum (Fin 2),
      ''pickupDate'' \<mapsto> JStr ''2024-01-01'', ''returnDate'' \<mapsto> JStr ''2024-01-03'',
      ''location'' \<mapsto> JStr ''Downtown'', ''dailyRate'' \<mapsto> JNum (Fin 50),
      ''rentalDays'' \<mapsto> JNum (Fin 2), ''totalAmount'' \<mapsto> JNum (Fin 100)]"

definition demo_data :: "string \<Rightarrow> booking_data" where
  "demo_data bid =
     \<lparr> name = ''A'', email = ''a@x.com'', phone = ''123'', carModel = JStr ''Sedan'',
       carId = Fin 2, pickupDate = AtTime 1704067200000,
       returnDate = AtTime 1704240000000, pickupLocation = JStr ''Downtown'',
       specialRequests = JStr [], dailyRate = Fin 50, rentalDays = Fin 2,
       totalAmount = Fin 100, bookingId = bid, status = ''confirmed'' \<rparr>"

definition empty_store :: store where
  "empty_store = \<lparr> docs = [], oplog = [] \<rparr>"

definition dup_error :: js_error where
  "dup_error = JsError ''MongoServerError'' ''E11000 duplicate key error collection: car_rental.bookings'' (NumCode 11000)"

definition colliding_env :: env where
  "colliding_env = demo_env\<lparr>save_first := Some dup_error, save_retry := Some dup_error\<rparr>"

definition disconnected_env :: env where
  "disconnected_env = demo_env\<lparr>readyState := 0\<rparr>"

text \<open>A production deployment whose store rejects the query of the list handler.\<close>

definition socket_error :: js_error where
  "socket_error = JsError ''MongoNetworkError'' ''connection 7 to 10.0.3.12:27017 closed'' NoCode"

definition failing_find_env :: env where
  "failing_find_env = demo_env\<lparr>find_fault := Some socket_error\<rparr>"

text \<open>The sample request reduced to its four required fields.\<close>

definition required_only_body :: body where
  "required_only_body =
     [''name'' \<mapsto> JStr ''A'', ''email'' \<mapsto> JStr ''a@x.com'', ''phone'' \<mapsto> JStr ''123'',
      ''carModel'' \<mapsto> JStr ''Sedan'']"

text \<open>The sample request with a forged \<open>status\<close> and a key that the schema does not know.\<close>

definition forged_body :: body where
  "forged_body = demo_body(''status'' \<mapsto> JStr ''cancelled'', ''isAdmin'' \<mapsto> JBool True)"

text \<open>A collection of fifteen documents created one millisecond apart.\<close>

definition fifteen_store :: store where
  "fifteen_store =
     \<lparr> docs = map (\<lambda>i. new_Booking (demo_data (''CR'' @ digits i)) (digits i) (1704067200000 + i)) [0..<15],
       oplog = [] \<rparr>"


section \<open>Printing natural numbers\<close>

lemma digits_small: "n < 10 \<Longrightarrow> digits n = [digit_char n]"
  by (subst digits.simps) simp

lemma digits_large: "\<not> n < 10 \<Longrightarrow> digits n = digits (n div 10) @ [digit_char (n mod 10)]"
  by (subst digits.simps) simp

lemma strip10_stop: "m = 0 \<or> m mod 10 \<noteq> 0 \<Longrightarrow> strip10 m e = (m, e)"
  by (subst strip10.simps) auto

lemma strip10_step: "m \<noteq> 0 \<Longrightarrow> m mod 10 = 0 \<Longrightarrow> strip10 m e = strip10 (m div 10) (e + 1)"
  by (subst strip10.simps) simp








subsection \<open>Rounding\<close>

lemma round_half_even_int: "round_half_even (of_int z) = z"
  by (simp add: round_half_even_def)







lemma floor_log2_of_int: "0 < n \<Longrightarrow> floor_log2 (of_int n) = bitlen n - 1"
  by (simp add: floor_log2_def)

lemma bitlen_pos: "0 < n \<Longrightarrow> 1 \<le> bitlen n"
  by (simp add: bitlen_alt_def)

lemma round_pos_of_int_small:
  assumes "0 < n" and "bitlen n \<le> 53"
  shows "round_pos (of_int n) = Fin (of_int n)"
proof -
  let ?e = "bitlen n - 1"
  let ?k = "nat (52 - ?e)"
  from bitlen_pos[OF assms(1)] assms(2) have e: "0 \<le> ?e" "?e \<le> 52" by simp_all
  then have m: "max (floor_log2 (of_int n)) (- 1022) = ?e"
    using assms(1) by (simp add: floor_log2_of_int)
  have "?e - 52 = - int ?k" using e by simp
  then have "power_int (2::rat) (?e - 52) = 1 / power_int 2 (int ?k)"
    by (simp only: power_int_minus_divide)
  then have ulp: "power_int (2::rat) (?e - 52) = 1 / 2 ^ ?k"
    by (simp only: power_int_of_nat)
  have quot: "(of_int n :: rat) / (1 / 2 ^ ?k) = of_int (n * 2 ^ ?k)" by simp
  from assms(2) have "n < 2 ^ 53" by (simp add: bitlen_le_iff_power)
  then have "(of_int n :: rat) < of_int (2 ^ 53)" by (simp only: of_int_less_iff)
  then have "(of_int n :: rat) < 2 ^ 53" by simp
  moreover have "(2::rat) ^ 53 < 2 ^ 1024" by (rule power_strict_increasing) simp_all
  ultimately have small: "\<not> power_int (2::rat) 1024 \<le> of_int n" by simp
  have undo: "(of_int (n * 2 ^ ?k) :: rat) * (1 / 2 ^ ?k) = of_int n" by simp
  have "round_pos (of_int n) =
      (if power_int 2 1024 \<le> (of_int n :: rat) then PosInf else Fin (of_int n))"
    unfolding round_pos_def m Let_def ulp quot round_half_even_int undo ..
  with small show ?thesis by (simp only: if_False)
qed

lemma round_pos_of_int_cases:
  assumes "0 < n"
  shows "round_pos (of_int n) = PosInf \<or> (\<exists>m. round_pos (of_int n) = Fin (of_int m))"
proof (cases "bitlen n \<le> 53")
  case True
  with round_pos_of_int_small[OF assms] show ?thesis by blast
next
  case False
  let ?e = "bitlen n - 1"
  let ?k = "nat (?e - 52)"
  from False have e: "52 < ?e" by simp
  then have m: "max (floor_log2 (of_int n)) (- 1022) = ?e"
    using assms by (simp add: floor_log2_of_int)
  have "?e - 52 = int ?k" using e by simp
  then have "power_int (2::rat) (?e - 52) = power_int 2 (int ?k)" by (simp only:)
  then have "power_int (2::rat) (?e - 52) = 2 ^ ?k" by (simp only: power_int_of_nat)
  then have ulp: "power_int (2::rat) (?e - 52) = of_int (2 ^ ?k)" by simp
  have v: "(of_int z :: rat) * of_int (2 ^ ?k) = of_int (z * 2 ^ ?k)" for z by simp
  have h: "(if c then PosInf else Fin (of_int z)) = PosInf
      \<or> (\<exists>m. (if c then PosInf else Fin (of_int z)) = Fin (of_int m))" for c z
    by auto
  show ?thesis
    unfolding round_pos_def m Let_def ulp v by (rule h)
qed

lemma round_double_of_int_small:
  assumes "\<bar>n\<bar> < 2 ^ 53"
  shows "round_double (of_int n) = Fin (of_int n)"
proof -
  have bl: "bitlen m \<le> 53" if "0 < m" "m < 2 ^ 53" for m :: int
    using that by (simp add: bitlen_le_iff_power)
  consider "n = 0" | "0 < n" | "n < 0" by linarith
  then show ?thesis
  proof cases
    case 1
    then show ?thesis by (simp add: round_double_def)
  next
    case 2
    with assms have "bitlen n \<le> 53" by (intro bl) simp_all
    with 2 show ?thesis
      by (simp add: round_double_def round_pos_of_int_small)
  next
    case 3
    with assms have "bitlen (- n) \<le> 53" by (intro bl) simp_all
    with 3 round_pos_of_int_small[of "- n"] show ?thesis
      by (simp add: round_double_def)
  qed
qed

lemma round_double_of_int_cases:
  "round_double (of_int n) = PosInf \<or> round_double (of_int n) = NegInf
   \<or> (\<exists>m. round_double (of_int n) = Fin (of_int m))"
proof -
  consider "n = 0" | "0 < n" | "n < 0" by linarith
  then show ?thesis
  proof cases
    case 1
    have "round_double (of_int 0) = Fin (of_int 0)" by (simp add: round_double_def)
    with 1 show ?thesis by blast
  next
    case 2
    then have "round_double (of_int n) = round_pos (of_int n)"
      by (simp add: round_double_def)
    with round_pos_of_int_cases[OF 2] show ?thesis by auto
  next
    case 3
    then have "0 < - n" by simp
    from round_pos_of_int_cases[OF this] show ?thesis
    proof (elim disjE exE)
      assume "round_pos (of_int (- n)) = PosInf"
      with 3 show ?thesis by (simp add: round_double_def)
    next
      fix m
      assume "round_pos (of_int (- n)) = Fin (of_int m)"
      with 3 have "round_double (of_int n) = Fin (of_int (- m))"
        by (simp add: round_double_def)
      then show ?thesis by blast
    qed
  qed
qed






lemma round_double_numeral:
  "(numeral k :: int) < 2 ^ 53 \<Longrightarrow> round_double (numeral k) = Fin (numeral k)"
  using round_double_of_int_small[of "numeral k"] by simp

lemma round_double_zero: "round_double 0 = Fin 0"
  by (simp add: round_double_def)

lemma round_double_one: "round_double 1 = Fin 1"
  using round_double_of_int_small[of 1] by simp

section \<open>The paths of the create handler\<close>

lemma create_booking_disconnected:
  "readyState env \<noteq> 1 \<Longrightarrow> create_booking env b st = (unavailable_response, st)"
  by (simp add: create_booking_def)

lemma create_booking_missing:
  assumes "readyState env = 1"
    and "\<not> truthy (field b ''name'') \<or> \<not> truthy (field b ''email'')
         \<or> \<not> truthy (field b ''phone'') \<or> \<not> truthy (field b ''carModel'')"
  shows "create_booking env b st = (missing_fields_response, st)"
  using assms by (simp add: create_booking_def create_try_def)

lemma new_Booking_fields:
  "name (new_Booking d oid t) = name d" "email (new_Booking d oid t) = email d"
  "phone (new_Booking d oid t) = phone d"
  "carModel (new_Booking d oid t) = cast_or_unset (carModel d)"
  "carId (new_Booking d oid t) = carId d" "dailyRate (new_Booking d oid t) = dailyRate d"
  "rentalDays (new_Booking d oid t) = rentalDays d" "totalAmount (new_Booking d oid t) = totalAmount d"
  "bookingId (new_Booking d oid t) = bookingId d" "status (new_Booking d oid t) = status d"
  "pickupDate (new_Booking d oid t) = pickupDate d" "returnDate (new_Booking d oid t) = returnDate d"
  "doc_id (new_Booking d oid t) = oid" "createdAt (new_Booking d oid t) = int t"
  "invalid_paths (new_Booking d oid t) = failed_paths d"
  by (simp_all add: new_Booking_def booking_data.defs)

lemma invalid_paths_docs:
  "invalid_paths (first_doc env d) = failed_paths d"
  "invalid_paths (retry_doc env d) = failed_paths d"
  by (simp_all add: first_doc_def retry_doc_def new_Booking_fields failed_paths_def)

lemma save_with_retry_invalid:
  assumes "failed_paths d \<noteq> []"
  shows "save_with_retry env d st =
     (Inl (validation_error env), st\<lparr>oplog := oplog st @ [OpSave (first_doc env d)]\<rparr>)"
  using assms
  by (simp add: save_with_retry_def save_def invalid_paths_docs validation_error_def)

lemma save_with_retry_first_ok:
  assumes "readyState env = 1" and "failed_paths d = []" and "save_first env = None"
  shows "save_with_retry env d st =
     (Inr (first_doc env d), st\<lparr>oplog := oplog st @ [OpSave (first_doc env d)],
                                 docs := docs st @ [first_doc env d]\<rparr>)"
  using assms by (simp add: save_with_retry_def save_def invalid_paths_docs)

lemma save_with_retry_first_other:
  assumes "readyState env = 1" and "failed_paths d = []"
    and "save_first env = Some e" and "err_code e \<noteq> NumCode 11000"
  shows "save_with_retry env d st =
     (Inl e, st\<lparr>oplog := oplog st @ [OpSave (first_doc env d)]\<rparr>)"
  using assms by (simp add: save_with_retry_def save_def invalid_paths_docs)

lemma save_with_retry_retry_ok:
  assumes "readyState env = 1" and "failed_paths d = []"
    and "save_first env = Some e" and "err_code e = NumCode 11000"
    and "save_retry env = None"
  shows "save_with_retry env d st =
     (Inr (retry_doc env d),
      st\<lparr>oplog := oplog st @ [OpSave (first_doc env d), OpSave (retry_doc env d)],
         docs := docs st @ [retry_doc env d]\<rparr>)"
  using assms by (simp add: save_with_retry_def save_def invalid_paths_docs)

lemma save_with_retry_retry_fails:
  assumes "readyState env = 1" and "failed_paths d = []"
    and "save_first env = Some e" and "err_code e = NumCode 11000"
    and "save_retry env = Some e2"
  shows "save_with_retry env d st =
     (Inl e2, st\<lparr>oplog := oplog st @ [OpSave (first_doc env d), OpSave (retry_doc env d)]\<rparr>)"
  using assms by (simp add: save_with_retry_def save_def invalid_paths_docs)

lemma create_booking_valid:
  assumes "readyState env = 1"
    and "truthy (field b ''name'')" and "truthy (field b ''email'')"
    and "truthy (field b ''phone'')" and "truthy (field b ''carModel'')"
  shows "create_booking env b st =
     (case build_booking_data env b (booking_id (now_id env) (random_first env) 1000) of
        Inl e \<Rightarrow> (error_response env e, st)
      | Inr bookingData \<Rightarrow>
          (case save_with_retry env bookingData st of
             (Inl e, st') \<Rightarrow> (error_response env e, st')
           | (Inr savedBooking, st') \<Rightarrow> (created_response env savedBooking, st')))"
  using assms by (simp add: create_booking_def create_try_def split: sum.splits prod.splits)

lemma build_booking_data_Inr:
  assumes "build_booking_data env b bid = Inr d"
  obtains n e p cid pd rd dr days total where
    "field b ''name'' = JStr n" "field b ''email'' = JStr e" "field b ''phone'' = JStr p"
    "parseInt (field b ''carId'') = Some cid"
    "new_Date (date_parse env) (field b ''pickupDate'') = Some pd"
    "new_Date (date_parse env) (field b ''returnDate'') = Some rd"
    "parseFloat (field b ''dailyRate'') = Some dr"
    "parseInt (field b ''rentalDays'') = Some days"
    "parseFloat (field b ''totalAmount'') = Some total"
    "d = \<lparr> name = trim n, email = trim e, phone = trim p,
           carModel = field b ''carModel'',
           carId = num_or_else cid (Fin 1),
           pickupDate = pd, returnDate = rd,
           pickupLocation = field b ''location'',
           specialRequests = or_else (field b ''requests'') (JStr []),
           dailyRate = num_or_else dr (Fin 0),
           rentalDays = num_or_else days (Fin 1),
           totalAmount = num_or_else total (Fin 0),
           bookingId = bid, status = ''confirmed'' \<rparr>"
  using assms
  by (auto simp: build_booking_data_def bind_err_def call_trim_def or_throw_def
      split: sum.splits jsval.splits option.splits)

section \<open>Evaluation on the sample inputs\<close>

lemma replicate_pos: "0 < n \<Longrightarrow> replicate n x = x # replicate (n - 1) x"
  by (cases n) simp_all

lemmas eval_simps =
  replicate_pos field_def digits_small digits_large strip10_stop strip10_step digit_char_def
  pos_to_string_def finite_to_string_def round_double_numeral round_double_zero round_double_one
  parseInt_def parseFloat_def parse_int_string_def parse_float_string_def
  parse_exponent_def split_sign_def signed_def radix_value_def dv_def is_digit_def is_ws_def
  new_Date_def parsed_date_def time_clip_def or_throw_def bind_err_def call_trim_def trim_def
  num_or_else_def or_else_def

lemma build_demo: "build_booking_data demo_env demo_body bid = Inr (demo_data bid)"
  by (simp add: build_booking_data_def demo_body_def demo_data_def demo_env_def
      demo_date_parse_def eval_simps)

lemma demo_data_valid: "failed_paths (demo_data bid) = []"
  by (simp add: failed_paths_def demo_data_def cast_string_def)

lemma created_not_missing: "created_response env d \<noteq> missing_fields_response"
  by (simp add: created_response_def missing_fields_response_def)

lemma error_not_missing: "error_response env e \<noteq> missing_fields_response"
  by (simp add: error_response_def missing_fields_response_def)

lemma required_falsy_iff:
  "(\<exists>k\<in>set required. \<not> truthy (field b k)) \<longleftrightarrow>
     (\<not> truthy (field b ''name'') \<or> \<not> truthy (field b ''email'')
      \<or> \<not> truthy (field b ''phone'') \<or> \<not> truthy (field b ''carModel''))"
  by (simp add: required_def)

lemma required_truthy:
  assumes "\<forall>k\<in>set required. truthy (field b k)"
  shows "truthy (field b ''name'')" "truthy (field b ''email'')"
    "truthy (field b ''phone'')" "truthy (field b ''carModel'')"
  using assms by (simp_all add: required_def)

lemma create_booking_valid_not_missing:
  assumes "readyState env = 1" and "\<not> (\<exists>k\<in>set required. \<not> truthy (field b k))"
  shows "fst (create_booking env b st) \<noteq> missing_fields_response"
proof -
  from assms(2) have t: "truthy (field b ''name'')" "truthy (field b ''email'')"
    "truthy (field b ''phone'')" "truthy (field b ''carModel'')"
    by (simp_all add: required_falsy_iff)
  show ?thesis
    unfolding create_booking_valid[OF assms(1) t]
    by (simp add: created_not_missing error_not_missing split: sum.splits prod.splits)
qed

text \<open>
  On the sample deployment and the empty collection, a request that passes validation,
  whose object literal evaluates and whose document is valid is saved at the first
  attempt.
\<close>

lemma create_demo_like:
  assumes "build_booking_data demo_env b (booking_id (now_id demo_env) (random_first demo_env) 1000) = Inr d"
    and "\<forall>k\<in>set required. truthy (field b k)"
    and "failed_paths d = []"
  shows "create_booking demo_env b empty_store =
     (created_response demo_env (first_doc demo_env d),
      \<lparr>docs = [first_doc demo_env d], oplog = [OpSave (first_doc demo_env d)]\<rparr>)"
proof -
  have c: "readyState demo_env = 1" and s: "save_first demo_env = None"
    by (simp_all add: demo_env_def)
  show ?thesis
    unfolding create_booking_valid[OF c required_truthy[OF assms(2)]]
    by (simp add: assms(1) save_with_retry_first_ok[OF c assms(3) s] empty_store_def)
qed

section \<open>C1: validation of the required fields\<close>

text \<open>
  C1, as stated: a create request in which one of \<open>name\<close>, \<open>email\<close>, \<open>phone\<close>,
  \<open>carModel\<close> is absent or empty after trimming (a string of white space only) is answered
  400 and nothing is persisted. The handler tests the fields before it trims them, so this
  fails: a name of three spaces trims to the empty string, yet the request is answered 201
  and a document with the empty name is in the collection.
\<close>

theorem whitespace_only_name_counterexample:
  "trim ''   '' = []
   \<and> res_status (fst (create_booking demo_env (demo_body(''name'' \<mapsto> JStr ''   '')) empty_store)) = 201
   \<and> map name (docs (snd (create_booking demo_env (demo_body(''name'' \<mapsto> JStr ''   '')) empty_store))) = [[]]"
proof -
  have b: "build_booking_data demo_env (demo_body(''name'' \<mapsto> JStr ''   '')) bid = Inr ((demo_data bid)\<lparr>name := []\<rparr>)" for bid
    by (simp add: build_booking_data_def demo_body_def demo_data_def demo_env_def
        demo_date_parse_def eval_simps)
  have v: "failed_paths ((demo_data bid)\<lparr>name := []\<rparr>) = []" for bid
    by (simp add: failed_paths_def demo_data_def cast_string_def)
  have r: "\<forall>k\<in>set required. truthy (field (demo_body(''name'' \<mapsto> JStr ''   '')) k)"
    by (simp add: required_def field_def demo_body_def)
  have t: "trim ''   '' = []" by (simp add: trim_def is_ws_def)
  show ?thesis
    unfolding create_demo_like[OF b r v]
    by (simp add: t created_response_def first_doc_def new_Booking_fields demo_data_def)
qed

text \<open>
  C1, amended: while the store is connected, the handler answers with its
  missing-fields response, of status 400, exactly when one of the four required fields is
  falsy as it arrives (absent, \<open>null\<close>, \<open>false\<close>, zero, \<open>NaN\<close> or the empty string), and
  then the store is left as it was: no operation is issued and no record is persisted.
\<close>

theorem create_rejects_falsy_required_field:
  assumes "readyState env = 1"
  shows "(fst (create_booking env b st) = missing_fields_response
            \<longleftrightarrow> (\<exists>k\<in>set required. \<not> truthy (field b k)))
         \<and> res_status missing_fields_response = 400
         \<and> ((\<exists>k\<in>set required. \<not> truthy (field b k))
              \<longrightarrow> snd (create_booking env b st) = st)"
proof -
  have "create_booking env b st = (missing_fields_response, st)"
    if "\<exists>k\<in>set required. \<not> truthy (field b k)"
    using that create_booking_missing[OF assms] by (simp add: required_falsy_iff)
  moreover have "fst (create_booking env b st) \<noteq> missing_fields_response"
    if "\<not> (\<exists>k\<in>set required. \<not> truthy (field b k))"
    using that create_booking_valid_not_missing[OF assms] by simp
  ultimately have "fst (create_booking env b st) = missing_fields_response
            \<longleftrightarrow> (\<exists>k\<in>set required. \<not> truthy (field b k))"
    and "(\<exists>k\<in>set required. \<not> truthy (field b k)) \<longrightarrow> snd (create_booking env b st) = st"
    by (cases "\<exists>k\<in>set required. \<not> truthy (field b k)"; simp)+
  moreover have "res_status missing_fields_response = 400"
    by (simp add: missing_fields_response_def)
  ultimately show ?thesis by blast
qed

text \<open>The amended C1 at the sample request with its \<open>phone\<close> removed.\<close>

theorem create_rejects_falsy_required_field_witness:
  "readyState demo_env = 1
   \<and> (\<exists>k\<in>set required. \<not> truthy (field (demo_body(''phone'' := None)) k))
   \<and> fst (create_booking demo_env (demo_body(''phone'' := None)) empty_store) = missing_fields_response
   \<and> res_status missing_fields_response = 400
   \<and> snd (create_booking demo_env (demo_body(''phone'' := None)) empty_store) = empty_store"
proof -
  have c: "readyState demo_env = 1" by (simp add: demo_env_def)
  have f: "\<exists>k\<in>set required. \<not> truthy (field (demo_body(''phone'' := None)) k)"
    by (simp add: required_def field_def demo_body_def)
  from create_rejects_falsy_required_field[OF c, of "demo_body(''phone'' := None)" empty_store] c f
  show ?thesis by blast
qed

section \<open>C2: one retry on a duplicate key\<close>

lemma error_status_duplicate: "duplicate_key e \<Longrightarrow> error_status e = 409"
  by (simp add: duplicate_key_def error_status_def)

text \<open>
  C2: when the first \<open>save()\<close> of a create request is rejected with a duplicate-key
  error (of the store, so the document has passed the validation of the schema and the
  insert was sent), the handler generates the identifier again and issues exactly one
  more \<open>save()\<close>, of the same data under the new identifier; if that insert fails with a duplicate-key error too, the
  answer is 409 Conflict, with no further insert and nothing persisted; if it succeeds,
  the answer is 201 and the retried document is the one persisted.
\<close>

theorem duplicate_key_retried_once:
  assumes "readyState env = 1"
    and "\<forall>k\<in>set required. truthy (field b k)"
    and "build_booking_data env b (booking_id (now_id env) (random_first env) 1000) = Inr bookingData"
    and "fst (save env (save_first env) (first_doc env bookingData) st) = Inl e1"
    and "duplicate_key e1"
  shows "oplog (snd (create_booking env b st)) =
           oplog st @ [OpSave (first_doc env bookingData), OpSave (retry_doc env bookingData)]
         \<and> retry_doc env bookingData =
             new_Booking
               (bookingData\<lparr>bookingId := booking_id (now_retry_id env) (random_retry env) 10000\<rparr>)
               (oid_retry env) (now_retry_doc env)
         \<and> (\<forall>e2. save_retry env = Some e2 \<and> duplicate_key e2 \<longrightarrow>
               res_status (fst (create_booking env b st)) = 409
               \<and> docs (snd (create_booking env b st)) = docs st)
         \<and> (save_retry env = None \<longrightarrow>
               res_status (fst (create_booking env b st)) = 201
               \<and> docs (snd (create_booking env b st)) = docs st @ [retry_doc env bookingData])"
proof -
  note valid = create_booking_valid[OF assms(1) required_truthy[OF assms(2)], of st]
  from assms(5) have code: "err_code e1 = NumCode 11000"
    by (simp add: duplicate_key_def)
  from assms(1,4) code have ok: "failed_paths bookingData = []"
    by (auto simp: save_def Let_def validation_error_def invalid_paths_docs split: if_splits)
  with assms(1,4) have first: "save_first env = Some e1"
    by (auto simp: save_def Let_def invalid_paths_docs split: option.splits)
  have log: "oplog (snd (create_booking env b st)) =
      oplog st @ [OpSave (first_doc env bookingData), OpSave (retry_doc env bookingData)]"
  proof (cases "save_retry env")
    case None
    show ?thesis
      unfolding valid
      by (simp add: assms(3) save_with_retry_retry_ok[OF assms(1) ok first code None])
  next
    case (Some e2)
    show ?thesis
      unfolding valid
      by (simp add: assms(3) save_with_retry_retry_fails[OF assms(1) ok first code Some])
  qed
  have conflict: "res_status (fst (create_booking env b st)) = 409
      \<and> docs (snd (create_booking env b st)) = docs st"
    if "save_retry env = Some e2" and "duplicate_key e2" for e2
    unfolding valid
    by (simp add: assms(3) save_with_retry_retry_fails[OF assms(1) ok first code that(1)]
        error_response_def error_status_duplicate[OF that(2)])
  have created: "res_status (fst (create_booking env b st)) = 201
      \<and> docs (snd (create_booking env b st)) = docs st @ [retry_doc env bookingData]"
    if "save_retry env = None"
    unfolding valid
    by (simp add: assms(3) save_with_retry_retry_ok[OF assms(1) ok first code that] created_response_def)
  from log conflict created show ?thesis
    by (simp add: retry_doc_def)
qed

text \<open>C2 at the sample request, on a store that reports a duplicate key twice.\<close>

theorem duplicate_key_retried_once_witness:
  "readyState colliding_env = 1
   \<and> list_all (\<lambda>k. truthy (field demo_body k)) required
   \<and> build_booking_data colliding_env demo_body
         (booking_id (now_id colliding_env) (random_first colliding_env) 1000)
       = Inr (demo_data (booking_id (now_id colliding_env) (random_first colliding_env) 1000))
   \<and> fst (save colliding_env (save_first colliding_env)
         (first_doc colliding_env
            (demo_data (booking_id (now_id colliding_env) (random_first colliding_env) 1000)))
         empty_store) = Inl dup_error
   \<and> save_retry colliding_env = Some dup_error
   \<and> duplicate_key dup_error
   \<and> length (oplog (snd (create_booking colliding_env demo_body empty_store))) = 2
   \<and> res_status (fst (create_booking colliding_env demo_body empty_store)) = 409
   \<and> docs (snd (create_booking colliding_env demo_body empty_store)) = []"
proof -
  have c: "readyState colliding_env = 1"
    and s1: "save_first colliding_env = Some dup_error"
    and s2: "save_retry colliding_env = Some dup_error"
    by (simp_all add: colliding_env_def demo_env_def)
  have r: "\<forall>k\<in>set required. truthy (field demo_body k)"
    by (simp add: required_def field_def demo_body_def)
  have d: "duplicate_key dup_error"
    by (simp add: duplicate_key_def dup_error_def)
  have bd: "build_booking_data colliding_env demo_body bid = Inr (demo_data bid)" for bid
    using build_demo[of bid]
    by (simp add: build_booking_data_def colliding_env_def)
  have v: "fst (save colliding_env (save_first colliding_env)
         (first_doc colliding_env (demo_data bid)) empty_store) = Inl dup_error" for bid
    by (simp add: save_def Let_def invalid_paths_docs demo_data_valid c s1)
  from duplicate_key_retried_once[OF c r bd v d] s2 d
  have "oplog (snd (create_booking colliding_env demo_body empty_store)) =
          oplog empty_store @
          [OpSave (first_doc colliding_env (demo_data (booking_id (now_id colliding_env) (random_first colliding_env) 1000))),
           OpSave (retry_doc colliding_env (demo_data (booking_id (now_id colliding_env) (random_first colliding_env) 1000)))]"
    and "res_status (fst (create_booking colliding_env demo_body empty_store)) = 409"
    and "docs (snd (create_booking colliding_env demo_body empty_store)) = docs empty_store"
    by blast+
  with c r s2 d bd v show ?thesis
    by (simp add: empty_store_def list_all_iff)
qed

section \<open>C3: the connection check\<close>

text \<open>
  C3: when the connection state is not \<open>connected\<close>, a create request is answered 503
  whatever its body, before any validation and with the store untouched (no operation
  issued, no record written); a list request is answered 500 and writes nothing.
\<close>

theorem disconnected_create_503_list_500:
  assumes "readyState env \<noteq> 1"
  shows "create_booking env b st = (unavailable_response, st)
         \<and> res_status unavailable_response = 503
         \<and> res_status (fst (list_bookings env st)) = 500
         \<and> docs (snd (list_bookings env st)) = docs st"
  using assms
  by (simp add: create_booking_disconnected unavailable_response_def list_bookings_def
      find_latest_def)

text \<open>C3 at the sample request on a disconnected deployment.\<close>

theorem disconnected_create_503_list_500_witness:
  "readyState disconnected_env \<noteq> 1
   \<and> create_booking disconnected_env demo_body empty_store = (unavailable_response, empty_store)
   \<and> res_status unavailable_response = 503
   \<and> res_status (fst (list_bookings disconnected_env empty_store)) = 500
   \<and> docs (snd (list_bookings disconnected_env empty_store)) = docs empty_store"
proof -
  have d: "readyState disconnected_env \<noteq> 1"
    by (simp add: disconnected_env_def demo_env_def)
  from disconnected_create_503_list_500[OF d, of demo_body empty_store] d
  show ?thesis by blast
qed

section \<open>C4: the list of the ten latest bookings\<close>

lemma newest_first_rev_sort: "sorted_wrt (\<lambda>x y. createdAt y \<le> createdAt x) (rev (sort_key createdAt ds))"
proof -
  have "sorted (map createdAt (sort_key createdAt ds))" by (rule sorted_sort_key)
  then have "sorted_wrt (\<lambda>x y. createdAt x \<le> createdAt y) (sort_key createdAt ds)"
    by (simp add: sorted_map)
  then show ?thesis by (simp add: sorted_wrt_rev)
qed

lemma take_latest:
  fixes ds :: "stored list"
  defines "all \<equiv> rev (sort_key createdAt ds)"
  shows "length (take n all) = min n (length ds)"
    and "sorted_wrt (\<lambda>x y. createdAt y \<le> createdAt x) (take n all)"
    and "mset (take n all) \<subseteq># mset ds"
    and "\<forall>x\<in>set (take n all). \<forall>y\<in># mset ds - mset (take n all). createdAt y \<le> createdAt x"
proof -
  have sorted_all: "sorted_wrt (\<lambda>x y. createdAt y \<le> createdAt x) all"
    unfolding all_def by (rule newest_first_rev_sort)
  have split: "mset ds = mset (take n all) + mset (drop n all)"
  proof -
    have "mset (take n all) + mset (drop n all) = mset all"
      by (metis append_take_drop_id mset_append)
    also have "\<dots> = mset ds" by (simp add: all_def)
    finally show ?thesis by simp
  qed
  show "length (take n all) = min n (length ds)"
    by (simp add: all_def min.commute)
  show "sorted_wrt (\<lambda>x y. createdAt y \<le> createdAt x) (take n all)"
    using sorted_all by simp
  show "mset (take n all) \<subseteq># mset ds"
    by (simp add: split)
  have "sorted_wrt (\<lambda>x y. createdAt y \<le> createdAt x) (take n all @ drop n all)"
    using sorted_all by simp
  then have "\<forall>x\<in>set (take n all). \<forall>y\<in>set (drop n all). createdAt y \<le> createdAt x"
    unfolding sorted_wrt_append by blast
  moreover have "mset ds - mset (take n all) = mset (drop n all)"
    by (simp add: split)
  ultimately show "\<forall>x\<in>set (take n all). \<forall>y\<in># mset ds - mset (take n all). createdAt y \<le> createdAt x"
    by simp
qed

text \<open>
  C4: on a connected store that answers the query, the list operation responds 200 with
  at most ten records (ten when there are more, so ten of fifteen), ordered by creation
  time newest first; they are records of the collection, and no record left out was
  created after a record returned. Each entry is the projection on the store identifier,
  \<open>bookingId\<close>, \<open>name\<close>, \<open>carModel\<close>, \<open>status\<close> and \<open>createdAt\<close>. The collection is
  not modified.
\<close>

theorem list_returns_ten_latest:
  assumes "readyState env = 1" and "find_fault env = None"
  shows "\<exists>bookings.
           fst (list_bookings env st) =
             \<lparr> res_status = 200,
               res_body = [(''success'', V (JBool True)),
                           (''count'', num (int (length bookings))),
                           (''bookings'', Arr (map list_entry bookings))] \<rparr>
         \<and> length bookings = min 10 (length (docs st))
         \<and> sorted_wrt (\<lambda>x y. createdAt y \<le> createdAt x) bookings
         \<and> mset bookings \<subseteq># mset (docs st)
         \<and> (\<forall>x\<in>set bookings. \<forall>y\<in># mset (docs st) - mset bookings. createdAt y \<le> createdAt x)
         \<and> (\<forall>b. list_entry b =
                Obj [(''id'', str (doc_id b)), (''bookingId'', str (bookingId b)),
                     (''name'', str (name b)), (''carModel'', V (carModel b)),
                     (''status'', str (status b)), (''createdAt'', D (AtTime (createdAt b)))])
         \<and> docs (snd (list_bookings env st)) = docs st"
proof -
  let ?bs = "take 10 (rev (sort_key createdAt (docs st)))"
  have "fst (list_bookings env st) =
      \<lparr> res_status = 200,
        res_body = [(''success'', V (JBool True)),
                    (''count'', num (int (length ?bs))),
                    (''bookings'', Arr (map list_entry ?bs))] \<rparr>"
    and "docs (snd (list_bookings env st)) = docs st"
    using assms by (simp_all add: list_bookings_def find_latest_def)
  with take_latest[of 10 "docs st"] show ?thesis
    by (intro exI[of _ ?bs]) (simp add: list_entry_def)
qed

text \<open>C4 on the collection of fifteen documents: ten are returned.\<close>

theorem list_returns_ten_latest_witness:
  "readyState demo_env = 1 \<and> find_fault demo_env = None \<and> length (docs fifteen_store) = 15
   \<and> (\<exists>bookings.
         fst (list_bookings demo_env fifteen_store) =
           \<lparr> res_status = 200,
             res_body = [(''success'', V (JBool True)),
                         (''count'', num 10),
                         (''bookings'', Arr (map list_entry bookings))] \<rparr>
       \<and> length bookings = 10
       \<and> sorted_wrt (\<lambda>x y. createdAt y \<le> createdAt x) bookings
       \<and> mset bookings \<subseteq># mset (docs fifteen_store)
       \<and> (\<forall>x\<in>set bookings. \<forall>y\<in># mset (docs fifteen_store) - mset bookings.
             createdAt y \<le> createdAt x))"
proof -
  have c: "readyState demo_env = 1" and f: "find_fault demo_env = None"
    by (simp_all add: demo_env_def)
  have n: "length (docs fifteen_store) = 15"
    by (simp add: fifteen_store_def)
  from list_returns_ten_latest[OF c f, of fifteen_store]
  obtain bookings where
    r: "fst (list_bookings demo_env fifteen_store) =
         \<lparr> res_status = 200,
           res_body = [(''success'', V (JBool True)),
                       (''count'', num (int (length bookings))),
                       (''bookings'', Arr (map list_entry bookings))] \<rparr>"
    and l: "length bookings = min 10 (length (docs fifteen_store))"
    and rest: "sorted_wrt (\<lambda>x y. createdAt y \<le> createdAt x) bookings"
      "mset bookings \<subseteq># mset (docs fifteen_store)"
      "\<forall>x\<in>set bookings. \<forall>y\<in># mset (docs fifteen_store) - mset bookings. createdAt y \<le> createdAt x"
    by blast
  from l n have l10: "length bookings = 10" by simp
  with r have "fst (list_bookings demo_env fifteen_store) =
         \<lparr> res_status = 200,
           res_body = [(''success'', V (JBool True)),
                       (''count'', num 10),
                       (''bookings'', Arr (map list_entry bookings))] \<rparr>"
    by simp
  with c f n l10 rest show ?thesis by blast
qed

section \<open>What a create request persists\<close>

lemma save_with_retry_docs:
  assumes "readyState env = 1"
  shows "docs (snd (save_with_retry env bookingData st)) = docs st
         \<or> (\<exists>d. (d = first_doc env bookingData \<or> d = retry_doc env bookingData)
                \<and> failed_paths bookingData = []
                \<and> (\<exists>st'. save_with_retry env bookingData st = (Inr d, st'))
                \<and> docs (snd (save_with_retry env bookingData st)) = docs st @ [d])"
proof (cases "failed_paths bookingData = []")
  case False
  then show ?thesis by (simp add: save_with_retry_invalid)
next
  case ok: True
  show ?thesis
  proof (cases "save_first env")
    case None
    show ?thesis by (simp add: save_with_retry_first_ok[OF assms ok None] ok)
  next
    case (Some e1)
    show ?thesis
    proof (cases "err_code e1 = NumCode 11000")
      case False
      show ?thesis by (simp add: save_with_retry_first_other[OF assms ok Some False])
    next
      case True
      show ?thesis
      proof (cases "save_retry env")
        case None
        show ?thesis by (simp add: save_with_retry_retry_ok[OF assms ok Some True None] ok)
      next
        case (Some e2)
        show ?thesis
          by (simp add: save_with_retry_retry_fails[OF assms ok \<open>save_first env = Some e1\<close> True Some])
      qed
    qed
  qed
qed

lemma create_booking_docs:
  "docs (snd (create_booking env b st)) = docs st
   \<or> (\<exists>bookingData d.
         build_booking_data env b (booking_id (now_id env) (random_first env) 1000) = Inr bookingData
       \<and> (d = first_doc env bookingData \<or> d = retry_doc env bookingData)
       \<and> failed_paths bookingData = []
       \<and> docs (snd (create_booking env b st)) = docs st @ [d])"
proof (cases "readyState env = 1")
  case False
  then show ?thesis by (simp add: create_booking_disconnected)
next
  case connected: True
  show ?thesis
  proof (cases "\<exists>k\<in>set required. \<not> truthy (field b k)")
    case True
    then show ?thesis
      using create_booking_missing[OF connected] by (simp add: required_falsy_iff)
  next
    case False
    then have r: "\<forall>k\<in>set required. truthy (field b k)" by simp
    note valid = create_booking_valid[OF connected required_truthy[OF r], of st]
    show ?thesis
    proof (cases "build_booking_data env b (booking_id (now_id env) (random_first env) 1000)")
      case (Inl e)
      then show ?thesis unfolding valid by simp
    next
      case (Inr bookingData)
      from save_with_retry_docs[OF connected, of bookingData st]
      show ?thesis
        unfolding valid Inr
        by (auto split: sum.splits prod.splits)
    qed
  qed
qed

lemma persisted_fields:
  assumes "d = first_doc env bookingData \<or> d = retry_doc env bookingData"
  shows "name d = name bookingData" "email d = email bookingData" "phone d = phone bookingData"
    "carModel d = cast_or_unset (carModel bookingData)" "carId d = carId bookingData"
    "dailyRate d = dailyRate bookingData" "rentalDays d = rentalDays bookingData"
    "totalAmount d = totalAmount bookingData" "status d = status bookingData"
  using assms by (auto simp: first_doc_def retry_doc_def new_Booking_fields)

lemma failed_paths_carModel:
  "failed_paths d = [] \<Longrightarrow> cast_string (carModel d) = Some (cast_or_unset (carModel d))"
  by (auto simp: failed_paths_def cast_or_unset_def split: if_splits)

section \<open>What a create request answers\<close>

lemma create_response_cases:
  "fst (create_booking env b st) = unavailable_response \<and> readyState env \<noteq> 1
   \<or> fst (create_try env b st) = Inr missing_fields_response
     \<and> fst (create_booking env b st) = missing_fields_response
   \<or> (\<exists>d. fst (create_booking env b st) = created_response env d)
   \<or> (\<exists>e. fst (create_try env b st) = Inl e \<and> fst (create_booking env b st) = error_response env e)"
  by (auto simp: create_booking_def create_try_def split: sum.splits prod.splits)

lemma error_status_cases: "error_status e = 400 \<or> error_status e = 409 \<or> error_status e = 500"
  by (simp add: error_status_def)

lemma error_message_fixed: "error_message e \<in> set fixed_messages"
  by (simp add: error_message_def fixed_messages_def)

lemma json_body_error_response:
  "json_body (error_response env e) =
     [(''success'', V (JBool False)), (''message'', str (error_message e))]
     @ (if node_env env = Some ''development'' then [(''error'', str (err_message e))] else [])
     @ (case err_code e of
          NoCode \<Rightarrow> []
        | NumCode n \<Rightarrow> [(''code'', num n)]
        | StrCode s \<Rightarrow> [(''code'', str s)])"
  by (simp add: json_body_def error_response_def code_val_def num_def str_def
      split: err_code.splits)

lemma json_body_list_error:
  assumes "fst (find_latest env 10 st) = Inl e"
  shows "res_status (fst (list_bookings env st)) = 500"
    and "json_body (fst (list_bookings env st)) =
           [(''success'', V (JBool False)), (''message'', str ''Failed to fetch bookings''),
            (''error'', str (err_message e))]"
  using assms
  by (cases "find_latest env 10 st"; simp add: list_bookings_def json_body_def str_def)+

lemma build_required_only:
  "build_booking_data demo_env required_only_body bid =
     Inr \<lparr> name = ''A'', email = ''a@x.com'', phone = ''123'', carModel = JStr ''Sedan'',
           carId = Fin 1, pickupDate = InvalidDate, returnDate = InvalidDate,
           pickupLocation = JUndefined, specialRequests = JStr [], dailyRate = Fin 0,
           rentalDays = Fin 1, totalAmount = Fin 0, bookingId = bid, status = ''confirmed'' \<rparr>"
  by (simp add: build_booking_data_def required_only_body_def demo_env_def eval_simps)

lemma create_try_required_only:
  "create_try demo_env required_only_body st =
     (Inl (validation_error demo_env),
      st\<lparr>oplog := oplog st @ [OpSave (first_doc demo_env
            \<lparr> name = ''A'', email = ''a@x.com'', phone = ''123'', carModel = JStr ''Sedan'',
              carId = Fin 1, pickupDate = InvalidDate, returnDate = InvalidDate,
              pickupLocation = JUndefined, specialRequests = JStr [], dailyRate = Fin 0,
              rentalDays = Fin 1, totalAmount = Fin 0,
              bookingId = booking_id (now_id demo_env) (random_first demo_env) 1000,
              status = ''confirmed'' \<rparr>)]\<rparr>)"
proof -
  have c: "readyState demo_env = 1" by (simp add: demo_env_def)
  have r: "\<not> (\<not> truthy (field required_only_body ''name'') \<or> \<not> truthy (field required_only_body ''email'')
         \<or> \<not> truthy (field required_only_body ''phone'') \<or> \<not> truthy (field required_only_body ''carModel''))"
    by (simp add: field_def required_only_body_def)
  have v: "failed_paths \<lparr> name = ''A'', email = ''a@x.com'', phone = ''123'', carModel = JStr ''Sedan'',
              carId = Fin 1, pickupDate = InvalidDate, returnDate = InvalidDate,
              pickupLocation = JUndefined, specialRequests = JStr [], dailyRate = Fin 0,
              rentalDays = Fin 1, totalAmount = Fin 0,
              bookingId = bid, status = ''confirmed'' \<rparr> \<noteq> []" for bid
    by (simp add: failed_paths_def)
  show ?thesis
    unfolding create_try_def
    by (simp only: r if_False build_required_only sum.case save_with_retry_invalid[OF v] prod.case)
qed

section \<open>C5: trimming of the text fields\<close>

text \<open>
  C5, as stated: the stored \<open>name\<close>, \<open>email\<close>, \<open>phone\<close> and \<open>carModel\<close> each equal the
  input with surrounding white space trimmed. The object literal calls \<open>trim\<close> on the
  first three and passes \<open>carModel\<close> on as it came, so this fails for \<open>carModel\<close>: the
  request with the car model \<open>" Sedan "\<close> is answered 201 and the stored car model keeps
  both spaces.
\<close>

theorem carModel_not_trimmed_counterexample:
  "res_status (fst (create_booking demo_env (demo_body(''carModel'' \<mapsto> JStr '' Sedan '')) empty_store)) = 201
   \<and> map carModel (docs (snd (create_booking demo_env (demo_body(''carModel'' \<mapsto> JStr '' Sedan '')) empty_store)))
       = [JStr '' Sedan '']
   \<and> trim '' Sedan '' = ''Sedan''"
proof -
  let ?b = "demo_body(''carModel'' \<mapsto> JStr '' Sedan '')"
  have b: "build_booking_data demo_env ?b bid = Inr ((demo_data bid)\<lparr>carModel := JStr '' Sedan ''\<rparr>)" for bid
    by (simp add: build_booking_data_def demo_body_def demo_data_def demo_env_def
        demo_date_parse_def eval_simps)
  have v: "failed_paths ((demo_data bid)\<lparr>carModel := JStr '' Sedan ''\<rparr>) = []" for bid
    by (simp add: failed_paths_def demo_data_def cast_string_def)
  have r: "\<forall>k\<in>set required. truthy (field ?b k)"
    by (simp add: required_def field_def demo_body_def)
  have t: "trim '' Sedan '' = ''Sedan''" by (simp add: trim_def is_ws_def)
  show ?thesis
    unfolding create_demo_like[OF b r v]
    by (simp add: t created_response_def first_doc_def new_Booking_fields demo_data_def
        cast_or_unset_def cast_string_def)
qed

text \<open>
  C5, amended: whenever a create request persists a record, its \<open>name\<close>, \<open>email\<close> and
  \<open>phone\<close> were strings and the stored values are these strings trimmed; the stored
  \<open>carModel\<close> is the input cast to a string by the schema, so that a string is stored as
  it was received, white space included.
\<close>

theorem contact_fields_trimmed:
  assumes "docs (snd (create_booking env b st)) \<noteq> docs st"
  shows "\<exists>n e p d.
           field b ''name'' = JStr n \<and> field b ''email'' = JStr e \<and> field b ''phone'' = JStr p
         \<and> docs (snd (create_booking env b st)) = docs st @ [d]
         \<and> name d = trim n \<and> email d = trim e \<and> phone d = trim p
         \<and> cast_string (field b ''carModel'') = Some (carModel d)
         \<and> (\<forall>c. field b ''carModel'' = JStr c \<longrightarrow> carModel d = JStr c)"
proof -
  from create_booking_docs[of env b st] assms
  obtain bookingData d where
    build: "build_booking_data env b (booking_id (now_id env) (random_first env) 1000) = Inr bookingData"
    and d: "d = first_doc env bookingData \<or> d = retry_doc env bookingData"
    and ok: "failed_paths bookingData = []"
    and docs: "docs (snd (create_booking env b st)) = docs st @ [d]"
    by blast
  from build obtain n e p where
    f: "field b ''name'' = JStr n" "field b ''email'' = JStr e" "field b ''phone'' = JStr p"
    and t: "name bookingData = trim n" "email bookingData = trim e" "phone bookingData = trim p"
    and m: "carModel bookingData = field b ''carModel''"
    by (elim build_booking_data_Inr) simp
  from failed_paths_carModel[OF ok] persisted_fields(4)[OF d] m
  have cast: "cast_string (field b ''carModel'') = Some (carModel d)" by simp
  then have "\<forall>c. field b ''carModel'' = JStr c \<longrightarrow> carModel d = JStr c"
    by (auto simp: cast_string_def)
  with f t docs cast persisted_fields(1-3)[OF d] show ?thesis by simp
qed

text \<open>The amended C5 at the sample request with a padded \<open>email\<close>.\<close>

theorem contact_fields_trimmed_witness:
  "docs (snd (create_booking demo_env (demo_body(''email'' \<mapsto> JStr '' a@x.com '')) empty_store)) \<noteq> docs empty_store
   \<and> (\<exists>d. docs (snd (create_booking demo_env (demo_body(''email'' \<mapsto> JStr '' a@x.com '')) empty_store)) = [d]
         \<and> name d = ''A'' \<and> email d = ''a@x.com'' \<and> phone d = ''123'' \<and> carModel d = JStr ''Sedan'')"
proof -
  let ?b = "demo_body(''email'' \<mapsto> JStr '' a@x.com '')"
  have b: "build_booking_data demo_env ?b bid = Inr (demo_data bid)" for bid
    by (simp add: build_booking_data_def demo_body_def demo_data_def demo_env_def
        demo_date_parse_def eval_simps)
  have r: "\<forall>k\<in>set required. truthy (field ?b k)"
    by (simp add: required_def field_def demo_body_def)
  have ne: "docs (snd (create_booking demo_env ?b empty_store)) \<noteq> docs empty_store"
    unfolding create_demo_like[OF b r demo_data_valid] by (simp add: empty_store_def)
  have f: "field ?b ''name'' = JStr ''A''" "field ?b ''email'' = JStr '' a@x.com ''"
    "field ?b ''phone'' = JStr ''123''" "field ?b ''carModel'' = JStr ''Sedan''"
    by (simp_all add: field_def demo_body_def)
  have t: "trim ''A'' = ''A''" "trim '' a@x.com '' = ''a@x.com''" "trim ''123'' = ''123''"
    by (simp_all add: trim_def is_ws_def)
  from contact_fields_trimmed[OF ne] obtain n e p d where
    "field ?b ''name'' = JStr n" "field ?b ''email'' = JStr e" "field ?b ''phone'' = JStr p"
    "docs (snd (create_booking demo_env ?b empty_store)) = docs empty_store @ [d]"
    "name d = trim n" "email d = trim e" "phone d = trim p"
    "\<forall>c. field ?b ''carModel'' = JStr c \<longrightarrow> carModel d = JStr c"
    by blast
  with f t have "docs (snd (create_booking demo_env ?b empty_store)) = [d]
      \<and> name d = ''A'' \<and> email d = ''a@x.com'' \<and> phone d = ''123'' \<and> carModel d = JStr ''Sedan''"
    by (simp add: empty_store_def)
  with ne show ?thesis by blast
qed

section \<open>C6: coercion of the numeric fields\<close>

lemma parse_int_string_range:
  "parse_int_string s = NaN \<or> parse_int_string s = PosInf \<or> parse_int_string s = NegInf
   \<or> (\<exists>n. parse_int_string s = Fin (of_int n))"
proof -
  have "parse_int_string s = NaN \<or> (\<exists>z. parse_int_string s = round_double (of_int z))"
    by (simp add: parse_int_string_def Let_def split: prod.splits) blast
  with round_double_of_int_cases show ?thesis by metis
qed

lemma parseInt_range:
  "parseInt v = Some c \<Longrightarrow> c = NaN \<or> c = PosInf \<or> c = NegInf \<or> (\<exists>n. c = Fin (of_int n))"
  using parse_int_string_range by (auto simp: parseInt_def)

text \<open>
  An integer that is no double is rounded by \<open>parseInt\<close>: \<open>2 ^ 53 + 1\<close> lies halfway
  between two doubles and goes to the even one.
\<close>

lemma bitlen_numeral_step: "bitlen (numeral k) = bitlen (numeral k div 2) + 1"
  by (subst compute_bitlen) simp

lemma bitlen_one: "bitlen 1 = 1"
  by (subst compute_bitlen) simp

lemma floor_log2_example: "floor_log2 9007199254740993 = 53"
  by (simp add: floor_log2_def bitlen_numeral_step bitlen_one)

lemma round_half_even_example: "round_half_even (9007199254740993 / 2) = 4503599627370496"
proof -
  have "(9007199254740993 / 2 :: rat) = of_int 9007199254740993 / of_int 2" by simp
  then have f: "\<lfloor>9007199254740993 / 2 :: rat\<rfloor> = 9007199254740993 div 2"
    by (simp only: floor_divide_of_int_eq)
  show ?thesis
    by (simp add: round_half_even_def Let_def f)
qed

lemma round_double_example: "round_double 9007199254740993 = Fin 9007199254740992"
  by (simp add: round_double_def round_pos_def Let_def floor_log2_example
      round_half_even_example power_int_def)

lemma parseInt_rounds: "parseInt (JStr ''9007199254740993'') = Some (Fin 9007199254740992)"
  by (simp add: parseInt_def parse_int_string_def split_sign_def signed_def radix_value_def
      dv_def is_digit_def is_ws_def round_double_example)

text \<open>
  C6, as stated: \<open>carId\<close> and \<open>rentalDays\<close> are stored as the parsed integer whenever
  parsing succeeds, 1 being used on parse failure only, so that an input of 0 is stored
  as 0. The fallback is written \<open>parseInt(v) || 1\<close>, and zero is falsy: an input of 0,
  as a number or as the string \<open>"0"\<close>, parses to 0 and is stored as 1.
\<close>

theorem zero_stored_as_one_counterexample:
  "parseInt (JNum (Fin 0)) = Some (Fin 0)
   \<and> parseInt (JStr ''0'') = Some (Fin 0)
   \<and> res_status (fst (create_booking demo_env
        (demo_body(''carId'' \<mapsto> JNum (Fin 0), ''rentalDays'' \<mapsto> JStr ''0'')) empty_store)) = 201
   \<and> map carId (docs (snd (create_booking demo_env
        (demo_body(''carId'' \<mapsto> JNum (Fin 0), ''rentalDays'' \<mapsto> JStr ''0'')) empty_store))) = [Fin 1]
   \<and> map rentalDays (docs (snd (create_booking demo_env
        (demo_body(''carId'' \<mapsto> JNum (Fin 0), ''rentalDays'' \<mapsto> JStr ''0'')) empty_store))) = [Fin 1]"
proof -
  let ?b = "demo_body(''carId'' \<mapsto> JNum (Fin 0), ''rentalDays'' \<mapsto> JStr ''0'')"
  have b: "build_booking_data demo_env ?b bid = Inr ((demo_data bid)\<lparr>carId := Fin 1, rentalDays := Fin 1\<rparr>)" for bid
    by (simp add: build_booking_data_def demo_body_def demo_data_def demo_env_def
        demo_date_parse_def eval_simps)
  have v: "failed_paths ((demo_data bid)\<lparr>carId := Fin 1, rentalDays := Fin 1\<rparr>) = []" for bid
    by (simp add: failed_paths_def demo_data_def cast_string_def)
  have r: "\<forall>k\<in>set required. truthy (field ?b k)"
    by (simp add: required_def field_def demo_body_def)
  have p: "parseInt (JNum (Fin 0)) = Some (Fin 0)" "parseInt (JStr ''0'') = Some (Fin 0)"
    by (simp_all add: eval_simps)
  show ?thesis
    unfolding create_demo_like[OF b r v]
    by (simp add: p created_response_def first_doc_def new_Booking_fields demo_data_def)
qed

text \<open>
  C6, amended: whenever a create request persists a record, \<open>carId\<close> and \<open>rentalDays\<close>
  are the result of \<open>parseInt\<close> on the input, which is \<open>NaN\<close>, an infinity (for an integer
  beyond the range of the doubles) or an integer (the double nearest to the digits read), stored as parsed unless it is \<open>NaN\<close> or zero, in
  which cases 1 is stored; \<open>dailyRate\<close> and \<open>totalAmount\<close> are the result of
  \<open>parseFloat\<close> on the input, stored as parsed unless it is \<open>NaN\<close>, in which case 0 is
  stored.
\<close>

theorem numeric_fields_coerced:
  assumes "docs (snd (create_booking env b st)) \<noteq> docs st"
  shows "\<exists>cid days dr total d.
           parseInt (field b ''carId'') = Some cid
         \<and> parseInt (field b ''rentalDays'') = Some days
         \<and> parseFloat (field b ''dailyRate'') = Some dr
         \<and> parseFloat (field b ''totalAmount'') = Some total
         \<and> docs (snd (create_booking env b st)) = docs st @ [d]
         \<and> (cid = NaN \<or> cid = PosInf \<or> cid = NegInf \<or> (\<exists>n. cid = Fin (of_int n)))
         \<and> (days = NaN \<or> days = PosInf \<or> days = NegInf \<or> (\<exists>n. days = Fin (of_int n)))
         \<and> carId d = (if cid = NaN \<or> cid = Fin 0 then Fin 1 else cid)
         \<and> rentalDays d = (if days = NaN \<or> days = Fin 0 then Fin 1 else days)
         \<and> dailyRate d = (if dr = NaN then Fin 0 else dr)
         \<and> totalAmount d = (if total = NaN then Fin 0 else total)"
proof -
  from create_booking_docs[of env b st] assms
  obtain bookingData d where
    build: "build_booking_data env b (booking_id (now_id env) (random_first env) 1000) = Inr bookingData"
    and d: "d = first_doc env bookingData \<or> d = retry_doc env bookingData"
    and docs: "docs (snd (create_booking env b st)) = docs st @ [d]"
    by blast
  from build obtain cid days dr total where
    p: "parseInt (field b ''carId'') = Some cid" "parseInt (field b ''rentalDays'') = Some days"
      "parseFloat (field b ''dailyRate'') = Some dr" "parseFloat (field b ''totalAmount'') = Some total"
    and v: "carId bookingData = num_or_else cid (Fin 1)"
      "rentalDays bookingData = num_or_else days (Fin 1)"
      "dailyRate bookingData = num_or_else dr (Fin 0)"
      "totalAmount bookingData = num_or_else total (Fin 0)"
    by (elim build_booking_data_Inr) simp
  have int_fallback: "num_or_else c (Fin 1) = (if c = NaN \<or> c = Fin 0 then Fin 1 else c)" for c
    by (cases c) (auto simp: num_or_else_def)
  have float_fallback: "num_or_else c (Fin 0) = (if c = NaN then Fin 0 else c)" for c
    by (cases c) (auto simp: num_or_else_def)
  note r = parseInt_range[OF p(1)] parseInt_range[OF p(2)]
  from p docs r v persisted_fields[OF d] show ?thesis
    by (simp add: int_fallback float_fallback)
qed

text \<open>
  The amended C6 at the sample request with the car identifier \<open>"9007199254740993"\<close>,
  which is \<open>2 ^ 53 + 1\<close> and no double: \<open>parseInt\<close> gives the double next to it, and
  this is what is stored.
\<close>

theorem numeric_fields_coerced_witness:
  "docs (snd (create_booking demo_env (demo_body(''carId'' \<mapsto> JStr ''9007199254740993'')) empty_store))
     \<noteq> docs empty_store
   \<and> parseInt (field (demo_body(''carId'' \<mapsto> JStr ''9007199254740993'')) ''carId'')
       = Some (Fin 9007199254740992)
   \<and> parseFloat (field (demo_body(''carId'' \<mapsto> JStr ''9007199254740993'')) ''totalAmount'')
       = Some (Fin 100)
   \<and> (\<exists>d. docs (snd (create_booking demo_env (demo_body(''carId'' \<mapsto> JStr ''9007199254740993'')) empty_store)) = [d]
         \<and> carId d = Fin 9007199254740992 \<and> totalAmount d = Fin 100)"
proof -
  let ?b = "demo_body(''carId'' \<mapsto> JStr ''9007199254740993'')"
  have p: "parseInt (field ?b ''carId'') = Some (Fin 9007199254740992)"
    "parseFloat (field ?b ''totalAmount'') = Some (Fin 100)"
    by (simp_all add: field_def demo_body_def round_double_example eval_simps)
  have b: "build_booking_data demo_env ?b bid = Inr ((demo_data bid)\<lparr>carId := Fin 9007199254740992\<rparr>)" for bid
    by (simp add: build_booking_data_def demo_body_def demo_data_def demo_env_def
        demo_date_parse_def round_double_example eval_simps)
  have v: "failed_paths ((demo_data bid)\<lparr>carId := Fin 9007199254740992\<rparr>) = []" for bid
    by (simp add: failed_paths_def demo_data_def cast_string_def)
  have r: "\<forall>k\<in>set required. truthy (field ?b k)"
    by (simp add: required_def field_def demo_body_def)
  have ne: "docs (snd (create_booking demo_env ?b empty_store)) \<noteq> docs empty_store"
    unfolding create_demo_like[OF b r v] by (simp add: empty_store_def)
  from numeric_fields_coerced[OF ne] obtain cid total d where
    "parseInt (field ?b ''carId'') = Some cid"
    "parseFloat (field ?b ''totalAmount'') = Some total"
    "docs (snd (create_booking demo_env ?b empty_store)) = docs empty_store @ [d]"
    "carId d = (if cid = NaN \<or> cid = Fin 0 then Fin 1 else cid)"
    "totalAmount d = (if total = NaN then Fin 0 else total)"
    by blast
  with p have "docs (snd (create_booking demo_env ?b empty_store)) = [d]
      \<and> carId d = Fin 9007199254740992 \<and> totalAmount d = Fin 100"
    by (simp add: empty_store_def)
  with ne p show ?thesis by blast
qed

section \<open>C7: what the error bodies disclose\<close>

text \<open>
  C7, as stated: outside development no error body of the create and list handlers holds
  an exception message, an error code or a store error string. The \<open>catch\<close> clause of the
  create handler writes \<open>code: error.code\<close> outside the test of \<open>NODE_ENV\<close>, and the
  \<open>catch\<close> clause of the list handler writes \<open>error: error.message\<close> with no test at
  all. So this fails twice in a production deployment: the 409 body of a create request
  whose two inserts collide carries the store's error code 11000, and the 500 body of a
  list request whose query the store rejects carries the message of the store's error.
\<close>

theorem error_bodies_disclose_counterexample:
  "node_env colliding_env \<noteq> Some ''development''
   \<and> res_status (fst (create_booking colliding_env demo_body empty_store)) = 409
   \<and> json_body (fst (create_booking colliding_env demo_body empty_store)) =
       [(''success'', V (JBool False)),
        (''message'', str ''Duplicate booking detected. Please try again.''),
        (''code'', num 11000)]
   \<and> node_env failing_find_env \<noteq> Some ''development''
   \<and> res_status (fst (list_bookings failing_find_env empty_store)) = 500
   \<and> json_body (fst (list_bookings failing_find_env empty_store)) =
       [(''success'', V (JBool False)),
        (''message'', str ''Failed to fetch bookings''),
        (''error'', str ''connection 7 to 10.0.3.12:27017 closed'')]"
proof -
  have c: "readyState colliding_env = 1"
    and s1: "save_first colliding_env = Some dup_error"
    and s2: "save_retry colliding_env = Some dup_error"
    and n: "node_env colliding_env \<noteq> Some ''development''"
    by (simp_all add: colliding_env_def demo_env_def)
  have r: "\<forall>k\<in>set required. truthy (field demo_body k)"
    by (simp add: required_def field_def demo_body_def)
  have code: "err_code dup_error = NumCode 11000" by (simp add: dup_error_def)
  have bd: "build_booking_data colliding_env demo_body bid = Inr (demo_data bid)" for bid
    using build_demo[of bid]
    by (simp add: build_booking_data_def colliding_env_def demo_env_def)
  have resp: "fst (create_booking colliding_env demo_body empty_store) = error_response colliding_env dup_error"
    unfolding create_booking_valid[OF c required_truthy[OF r]]
    by (simp add: bd save_with_retry_retry_fails[OF c demo_data_valid s1 code s2])
  have create: "res_status (fst (create_booking colliding_env demo_body empty_store)) = 409"
    "json_body (fst (create_booking colliding_env demo_body empty_store)) =
       [(''success'', V (JBool False)),
        (''message'', str ''Duplicate booking detected. Please try again.''),
        (''code'', num 11000)]"
    unfolding resp json_body_error_response
    using n by (simp_all add: error_response_def error_status_def error_message_def dup_error_def)
  have f: "fst (find_latest failing_find_env 10 empty_store) = Inl socket_error"
    by (simp add: find_latest_def failing_find_env_def demo_env_def)
  have n': "node_env failing_find_env \<noteq> Some ''development''"
    by (simp add: failing_find_env_def demo_env_def)
  from json_body_list_error[OF f] create n n' show ?thesis
    by (simp add: socket_error_def)
qed

text \<open>
  C7, amended: outside development the create handler answers 201 or with one of three
  failure bodies, each given here in full as it is serialised. The 503 body, sent when
  the store is not connected, is a fixed object, whose \<open>error\<close> member is the literal
  \<open>Database disconnected\<close>; the 400 body of the field check is a fixed object; the
  body of the \<open>catch\<close> clause, whose status is 400, 409 or 500, holds \<open>success\<close>,
  one of three fixed texts as \<open>message\<close>, and the \<open>code\<close> of the caught error when
  the error has one, and nothing else: the message of the exception is withheld, its code
  is not. The body of the error-handling middleware holds \<open>success\<close> and a fixed
  \<open>message\<close> only. The list handler does not withhold: the 500 body of a failed list
  request holds the message of the caught error as its \<open>error\<close> member, in every
  deployment.
\<close>

theorem error_bodies_outside_development:
  assumes "node_env env \<noteq> Some ''development''"
  shows "(res_status (fst (create_booking env b st)) = 201
          \<or> readyState env \<noteq> 1
            \<and> res_status (fst (create_booking env b st)) = 503
            \<and> json_body (fst (create_booking env b st)) =
                [(''success'', V (JBool False)),
                 (''message'', str ''Database not available. Please try again later.''),
                 (''error'', str ''Database disconnected'')]
          \<or> fst (create_try env b st) = Inr missing_fields_response
            \<and> res_status (fst (create_booking env b st)) = 400
            \<and> json_body (fst (create_booking env b st)) =
                [(''success'', V (JBool False)),
                 (''message'', str ''Please provide all required fields: name, email, phone, car model'')]
          \<or> (\<exists>e. fst (create_try env b st) = Inl e
                \<and> res_status (fst (create_booking env b st)) = error_status e
                \<and> error_status e \<in> {400, 409, 500}
                \<and> error_message e \<in> set fixed_messages
                \<and> json_body (fst (create_booking env b st)) =
                    [(''success'', V (JBool False)), (''message'', str (error_message e))]
                    @ (case err_code e of
                         NoCode \<Rightarrow> []
                       | NumCode n \<Rightarrow> [(''code'', num n)]
                       | StrCode s \<Rightarrow> [(''code'', str s)])))
         \<and> res_status (error_middleware env err) = 500
         \<and> json_body (error_middleware env err) =
             [(''success'', V (JBool False)), (''message'', str ''Internal server error'')]
         \<and> (case fst (find_latest env 10 st) of
              Inr bookings \<Rightarrow> res_status (fst (list_bookings env st)) = 200
            | Inl e \<Rightarrow>
                res_status (fst (list_bookings env st)) = 500
                \<and> json_body (fst (list_bookings env st)) =
                    [(''success'', V (JBool False)),
                     (''message'', str ''Failed to fetch bookings''),
                     (''error'', str (err_message e))])"
proof -
  let ?r = "fst (create_booking env b st)"
  have mw: "res_status (error_middleware env err) = 500"
    "json_body (error_middleware env err) =
       [(''success'', V (JBool False)), (''message'', str ''Internal server error'')]"
    using assms by (simp_all add: error_middleware_def json_body_def str_def)
  have lst: "(case fst (find_latest env 10 st) of
              Inr bookings \<Rightarrow> res_status (fst (list_bookings env st)) = 200
            | Inl e \<Rightarrow>
                res_status (fst (list_bookings env st)) = 500
                \<and> json_body (fst (list_bookings env st)) =
                    [(''success'', V (JBool False)),
                     (''message'', str ''Failed to fetch bookings''),
                     (''error'', str (err_message e))])"
  proof (cases "fst (find_latest env 10 st)")
    case (Inl e)
    with json_body_list_error[OF Inl] show ?thesis by simp
  next
    case (Inr bookings)
    then show ?thesis by (cases "find_latest env 10 st") (simp add: list_bookings_def)
  qed
  consider (unavailable) "readyState env \<noteq> 1" "?r = unavailable_response"
    | (missing) "fst (create_try env b st) = Inr missing_fields_response" "?r = missing_fields_response"
    | (created) d where "?r = created_response env d"
    | (error) e where "fst (create_try env b st) = Inl e" "?r = error_response env e"
    using create_response_cases[of env b st] by blast
  then have "res_status ?r = 201
          \<or> readyState env \<noteq> 1
            \<and> res_status ?r = 503
            \<and> json_body ?r =
                [(''success'', V (JBool False)),
                 (''message'', str ''Database not available. Please try again later.''),
                 (''error'', str ''Database disconnected'')]
          \<or> fst (create_try env b st) = Inr missing_fields_response
            \<and> res_status ?r = 400
            \<and> json_body ?r =
                [(''success'', V (JBool False)),
                 (''message'', str ''Please provide all required fields: name, email, phone, car model'')]
          \<or> (\<exists>e. fst (create_try env b st) = Inl e
                \<and> res_status ?r = error_status e
                \<and> error_status e \<in> {400, 409, 500}
                \<and> error_message e \<in> set fixed_messages
                \<and> json_body ?r =
                    [(''success'', V (JBool False)), (''message'', str (error_message e))]
                    @ (case err_code e of
                         NoCode \<Rightarrow> []
                       | NumCode n \<Rightarrow> [(''code'', num n)]
                       | StrCode s \<Rightarrow> [(''code'', str s)]))"
  proof cases
    case unavailable
    then show ?thesis by (simp add: unavailable_response_def json_body_def str_def)
  next
    case missing
    then show ?thesis by (simp add: missing_fields_response_def json_body_def str_def)
  next
    case created
    then show ?thesis by (simp add: created_response_def)
  next
    case (error e)
    have "res_status ?r = error_status e" by (simp add: error(2) error_response_def)
    moreover have "error_status e \<in> {400, 409, 500}" using error_status_cases[of e] by auto
    moreover have "json_body ?r =
                    [(''success'', V (JBool False)), (''message'', str (error_message e))]
                    @ (case err_code e of
                         NoCode \<Rightarrow> []
                       | NumCode n \<Rightarrow> [(''code'', num n)]
                       | StrCode s \<Rightarrow> [(''code'', str s)])"
      using assms by (simp add: error(2) json_body_error_response)
    ultimately show ?thesis using error(1) error_message_fixed[of e] by blast
  qed
  with mw lst show ?thesis by blast
qed

text \<open>
  The amended C7 at a request whose pickup date the schema rejects, in production: the
  400 body holds \<open>success\<close> and the fixed text, and not the message of the validation
  error.
\<close>

theorem error_bodies_outside_development_witness:
  "node_env demo_env \<noteq> Some ''development''
   \<and> fst (create_try demo_env required_only_body empty_store) = Inl (validation_error demo_env)
   \<and> err_message (validation_error demo_env) = ''Booking validation failed''
   \<and> res_status (fst (create_booking demo_env required_only_body empty_store)) = 400
   \<and> json_body (fst (create_booking demo_env required_only_body empty_store)) =
       [(''success'', V (JBool False)), (''message'', str ''Invalid booking data provided.'')]
   \<and> json_body (error_middleware demo_env socket_error) =
       [(''success'', V (JBool False)), (''message'', str ''Internal server error'')]"
proof -
  have n: "node_env demo_env \<noteq> Some ''development''" by (simp add: demo_env_def)
  have t: "fst (create_try demo_env required_only_body empty_store) = Inl (validation_error demo_env)"
    by (simp add: create_try_required_only)
  have m: "err_message (validation_error demo_env) = ''Booking validation failed''"
    by (simp add: validation_error_def demo_env_def)
  have e: "error_status (validation_error demo_env) = 400"
    "error_message (validation_error demo_env) = ''Invalid booking data provided.''"
    "err_code (validation_error demo_env) = NoCode"
    by (simp_all add: validation_error_def error_status_def error_message_def)
  have c: "readyState demo_env = 1" by (simp add: demo_env_def)
  have s: "res_status (fst (create_booking demo_env required_only_body empty_store)) = 400"
    by (simp add: create_booking_def c create_try_required_only error_response_def e)
  from error_bodies_outside_development[OF n, of required_only_body empty_store socket_error] t s e
  have "json_body (fst (create_booking demo_env required_only_body empty_store)) =
       [(''success'', V (JBool False)), (''message'', str ''Invalid booking data provided.'')]
     \<and> json_body (error_middleware demo_env socket_error) =
       [(''success'', V (JBool False)), (''message'', str ''Internal server error'')]"
    by (auto simp: str_def)
  with n t m s show ?thesis by blast
qed

section \<open>C8: the answer to a well-formed request\<close>







section \<open>C9: the fields \<open>success\<close> and \<open>message\<close>\<close>

lemma create_response_fields:
  "has_bool (fst (create_booking env b st)) ''success''
   \<and> has_string (fst (create_booking env b st)) ''message''"
proof -
  consider (unavailable) "fst (create_booking env b st) = unavailable_response"
    | (missing) "fst (create_booking env b st) = missing_fields_response"
    | (created) d where "fst (create_booking env b st) = created_response env d"
    | (error) e where "fst (create_booking env b st) = error_response env e"
    using create_response_cases[of env b st] by blast
  then show ?thesis
  proof cases
    case unavailable
    then show ?thesis
      by (simp add: unavailable_response_def has_bool_def has_string_def json_field_def str_def)
  next
    case missing
    then show ?thesis
      by (simp add: missing_fields_response_def has_bool_def has_string_def json_field_def str_def)
  next
    case created
    then show ?thesis
      by (simp add: created_response_def has_bool_def has_string_def json_field_def str_def)
  next
    case error
    then show ?thesis
      by (simp add: error_response_def has_bool_def has_string_def json_field_def str_def)
  qed
qed

lemma db_status_fields:
  "has_bool (fst (db_status env st)) ''success'' \<and> has_string (fst (db_status env st)) ''message''"
  by (simp add: db_status_def Let_def has_bool_def has_string_def json_field_def str_def
      split: prod.splits option.splits)

lemma list_response_fields:
  "has_bool (fst (list_bookings env st)) ''success''
   \<and> (res_status (fst (list_bookings env st)) \<noteq> 200
        \<longrightarrow> has_string (fst (list_bookings env st)) ''message'')
   \<and> (res_status (fst (list_bookings env st)) = 200
        \<longrightarrow> json_field (fst (list_bookings env st)) ''message'' = None)"
  by (simp add: list_bookings_def has_bool_def has_string_def json_field_def str_def
      split: prod.splits sum.splits)

text \<open>
  C9, as stated: every response of the service has a boolean \<open>success\<close> and a string
  \<open>message\<close>. The body of the root endpoint has no \<open>success\<close> field, and the body of a
  successful list has no \<open>message\<close> field.
\<close>

theorem root_and_list_lack_fields_counterexample:
  "res_status (fst (api demo_env GetRoot empty_store)) = 200
   \<and> json_field (fst (api demo_env GetRoot empty_store)) ''success'' = None
   \<and> res_status (fst (api demo_env GetBookings empty_store)) = 200
   \<and> json_field (fst (api demo_env GetBookings empty_store)) ''message'' = None"
  by (simp add: root_info_def list_bookings_def find_latest_def demo_env_def json_field_def)

text \<open>
  C9, amended: every response of the service other than the root endpoint's has a boolean
  \<open>success\<close>, and every response other than the list handler's 200 has a string
  \<open>message\<close>; this covers db-status, create, list, the 404 fallback and the
  error-handling middleware. The root endpoint's body has no \<open>success\<close>, and the list
  handler's 200 body has no \<open>message\<close>.
\<close>

theorem responses_success_and_message:
  "(req \<noteq> GetRoot \<longrightarrow> has_bool (fst (api env req st)) ''success'')
   \<and> (\<not> (req = GetBookings \<and> res_status (fst (api env req st)) = 200)
        \<longrightarrow> has_string (fst (api env req st)) ''message'')
   \<and> (req = GetRoot \<longrightarrow> json_field (fst (api env req st)) ''success'' = None)
   \<and> (req = GetBookings \<and> res_status (fst (api env req st)) = 200
        \<longrightarrow> json_field (fst (api env req st)) ''message'' = None)"
proof (cases req)
  case GetRoot
  then show ?thesis
    by (simp add: root_info_def has_string_def json_field_def str_def)
next
  case GetDbStatus
  with db_status_fields[of env st] show ?thesis by simp
next
  case (PostBookings b)
  with create_response_fields[of env b st] show ?thesis by simp
next
  case GetBookings
  with list_response_fields[of env st] show ?thesis by simp
next
  case (Unmatched url)
  then show ?thesis
    by (simp add: not_found_def has_bool_def has_string_def json_field_def str_def)
next
  case (Raised err)
  then show ?thesis
    by (simp add: error_middleware_def has_bool_def has_string_def json_field_def str_def)
qed

text \<open>The amended C9 at an unmatched route.\<close>

theorem responses_success_and_message_witness:
  "Unmatched ''/api/unknown-path'' \<noteq> GetRoot
   \<and> res_status (fst (api demo_env (Unmatched ''/api/unknown-path'') empty_store)) = 404
   \<and> has_bool (fst (api demo_env (Unmatched ''/api/unknown-path'') empty_store)) ''success''
   \<and> has_string (fst (api demo_env (Unmatched ''/api/unknown-path'') empty_store)) ''message''"
proof -
  have "res_status (fst (api demo_env (Unmatched ''/api/unknown-path'') empty_store)) = 404"
    by (simp add: not_found_def)
  with responses_success_and_message[of "Unmatched ''/api/unknown-path''" demo_env empty_store]
  show ?thesis by simp
qed

section \<open>C10: the status of a created record\<close>

lemma field_cong:
  assumes "\<forall>k\<in>set read_keys. b k = b' k"
  shows "field b ''name'' = field b' ''name''" "field b ''email'' = field b' ''email''"
    "field b ''phone'' = field b' ''phone''" "field b ''carModel'' = field b' ''carModel''"
    "field b ''carId'' = field b' ''carId''" "field b ''pickupDate'' = field b' ''pickupDate''"
    "field b ''returnDate'' = field b' ''returnDate''" "field b ''location'' = field b' ''location''"
    "field b ''requests'' = field b' ''requests''" "field b ''dailyRate'' = field b' ''dailyRate''"
    "field b ''rentalDays'' = field b' ''rentalDays''" "field b ''totalAmount'' = field b' ''totalAmount''"
  using assms by (simp_all add: read_keys_def field_def)

lemma create_booking_cong:
  assumes "\<forall>k\<in>set read_keys. b k = b' k"
  shows "create_booking env b st = create_booking env b' st"
  by (simp add: create_booking_def create_try_def build_booking_data_def field_cong[OF assms])

lemma create_booking_confirmed:
  "\<exists>new. docs (snd (create_booking env b st)) = docs st @ new \<and> length new \<le> 1
         \<and> (\<forall>d\<in>set new. status d = ''confirmed'')"
proof -
  from create_booking_docs[of env b st]
  consider "docs (snd (create_booking env b st)) = docs st"
    | bookingData d where
      "build_booking_data env b (booking_id (now_id env) (random_first env) 1000) = Inr bookingData"
      "d = first_doc env bookingData \<or> d = retry_doc env bookingData"
      "docs (snd (create_booking env b st)) = docs st @ [d]"
    by blast
  then show ?thesis
  proof cases
    case 1
    then show ?thesis by (intro exI[of _ "[]"]) simp
  next
    case 2
    from 2(1) have "status bookingData = ''confirmed''"
      by (elim build_booking_data_Inr) simp
    with persisted_fields(9)[OF 2(2)] 2(3) show ?thesis
      by (intro exI[of _ "[d]"]) simp
  qed
qed

lemma api_confirmed:
  "\<exists>new. docs (snd (api env req st)) = docs st @ new \<and> (\<forall>d\<in>set new. status d = ''confirmed'')"
proof (cases req)
  case (PostBookings b)
  with create_booking_confirmed[of env b st] show ?thesis by auto
next
  case GetDbStatus
  then show ?thesis
    by (simp add: db_status_def countDocuments_def Let_def split: prod.splits option.splits)
next
  case GetBookings
  then show ?thesis
    by (auto simp: list_bookings_def find_latest_def Let_def split: prod.splits sum.splits option.splits)
qed simp_all

lemma run_confirmed:
  "\<exists>new. docs (run reqs st) = docs st @ new \<and> (\<forall>d\<in>set new. status d = ''confirmed'')"
proof (induction reqs arbitrary: st)
  case Nil
  then show ?case by simp
next
  case (Cons a reqs)
  obtain env req where a: "a = (env, req)" by (cases a)
  from api_confirmed[of env req st] obtain new1 where
    1: "docs (snd (api env req st)) = docs st @ new1" "\<forall>d\<in>set new1. status d = ''confirmed''"
    by blast
  from Cons.IH[of "snd (api env req st)"] obtain new2 where
    2: "docs (run reqs (snd (api env req st))) = docs (snd (api env req st)) @ new2"
       "\<forall>d\<in>set new2. status d = ''confirmed''"
    by blast
  from 1 2 a show ?case
    by (intro exI[of _ "new1 @ new2"]) auto
qed

text \<open>
  C10: the create handler reads twelve keys of the body and no other, so two bodies that
  agree on them get the same answer and leave the same store (a \<open>status\<close> sent by the
  client changes nothing); a create request persists at most one record, whose \<open>status\<close>
  is \<open>confirmed\<close>; and over any run of requests the collection only grows at its end, by
  records of status \<open>confirmed\<close>, the records already there staying as they were.
\<close>

theorem created_records_stay_confirmed:
  "((\<forall>k\<in>set read_keys. b k = b' k) \<longrightarrow> create_booking env b st = create_booking env b' st)
   \<and> (\<exists>new. docs (snd (create_booking env b st)) = docs st @ new \<and> length new \<le> 1
             \<and> (\<forall>d\<in>set new. status d = ''confirmed''))
   \<and> (\<exists>new. docs (run reqs st) = docs st @ new \<and> (\<forall>d\<in>set new. status d = ''confirmed''))"
  using create_booking_cong[of b b' env st] create_booking_confirmed[of env b st]
    run_confirmed[of reqs st]
  by blast

text \<open>C10 at the sample request with a forged \<open>status\<close> and an unknown key added.\<close>

theorem created_records_stay_confirmed_witness:
  "list_all (\<lambda>k. forged_body k = demo_body k) read_keys
   \<and> create_booking demo_env forged_body empty_store = create_booking demo_env demo_body empty_store
   \<and> map status (docs (snd (create_booking demo_env forged_body empty_store))) = [''confirmed'']
   \<and> (\<exists>new. docs (run [(demo_env, PostBookings forged_body), (demo_env, GetBookings)] empty_store)
               = docs empty_store @ new
             \<and> (\<forall>d\<in>set new. status d = ''confirmed''))"
proof -
  have k: "\<forall>k\<in>set read_keys. forged_body k = demo_body k"
    by (simp add: read_keys_def forged_body_def)
  have r: "\<forall>k\<in>set required. truthy (field demo_body k)"
    by (simp add: required_def field_def demo_body_def)
  from created_records_stay_confirmed
    [of forged_body demo_body demo_env empty_store
        "[(demo_env, PostBookings forged_body), (demo_env, GetBookings)]"] k
  have same: "create_booking demo_env forged_body empty_store = create_booking demo_env demo_body empty_store"
    and run: "\<exists>new. docs (run [(demo_env, PostBookings forged_body), (demo_env, GetBookings)] empty_store)
               = docs empty_store @ new
             \<and> (\<forall>d\<in>set new. status d = ''confirmed'')"
    by blast+
  have "map status (docs (snd (create_booking demo_env demo_body empty_store))) = [''confirmed'']"
    unfolding create_demo_like[OF build_demo r demo_data_valid]
    by (simp add: first_doc_def new_Booking_fields demo_data_def)
  with same run k show ?thesis
    by (simp add: list_all_iff)
qed

end
